theory Spec2Isabelle
  imports Main
begin

section \<open>Text primitives of Python and of the remote shell\<close>

text \<open>
  Strings are lists of 8-bit characters. The Python string methods below are modelled on
  ASCII text: \<open>lower\<close> maps \<open>A\<close>..\<open>Z\<close>, \<open>strip\<close> and \<open>splitlines\<close> know the ASCII white
  space and line-boundary characters. Text outside ASCII is outside the model.
\<close>

definition is_linebreak :: "char \<Rightarrow> bool" where
  \<comment> \<open>the ASCII line boundaries of \<open>str.splitlines\<close>: LF, VT, FF, CR, FS, GS, RS\<close>
  "is_linebreak c = (c \<in> set [CHR 0x0A, CHR 0x0B, CHR 0x0C, CHR 0x0D, CHR 0x1C, CHR 0x1D, CHR 0x1E])"

definition isspace :: "char \<Rightarrow> bool" where
  \<comment> \<open>\<open>str.isspace\<close> on ASCII: TAB, LF, VT, FF, CR, FS, GS, RS, US, space\<close>
  "isspace c = (c \<in> set [CHR 0x09, CHR 0x0A, CHR 0x0B, CHR 0x0C, CHR 0x0D,
                          CHR 0x1C, CHR 0x1D, CHR 0x1E, CHR 0x1F, CHR 0x20])"

definition strip :: "string \<Rightarrow> string" where
  \<comment> \<open>\<open>str.strip()\<close>\<close>
  "strip s = rev (dropWhile isspace (rev (dropWhile isspace s)))"

definition lower_char :: "char \<Rightarrow> char" where
  "lower_char c =
     (case map_of (zip ''ABCDEFGHIJKLMNOPQRSTUVWXYZ'' ''abcdefghijklmnopqrstuvwxyz'') c of
        Some d \<Rightarrow> d
      | None \<Rightarrow> c)"

definition lower :: "string \<Rightarrow> string" where
  \<comment> \<open>\<open>str.lower()\<close>\<close>
  "lower s = map lower_char s"

fun startswith :: "string \<Rightarrow> string \<Rightarrow> bool" where
  \<comment> \<open>\<open>line.startswith(p)\<close>\<close>
  "startswith s [] = True"
| "startswith [] (p # ps) = False"
| "startswith (c # cs) (p # ps) = (c = p \<and> startswith cs ps)"

fun split_on :: "char \<Rightarrow> string \<Rightarrow> string list" where
  \<comment> \<open>\<open>s.split(sep)\<close> for a one-character separator: never the empty list\<close>
  "split_on sep [] = [[]]"
| "split_on sep (c # cs) =
     (if c = sep then [] # split_on sep cs
      else (case split_on sep cs of
              p # ps \<Rightarrow> (c # p) # ps
            | [] \<Rightarrow> [[c]]))"

fun splitlines_from :: "string \<Rightarrow> string \<Rightarrow> string list" where
  \<comment> \<open>\<open>str.splitlines()\<close>; the first argument is the line read so far, reversed.
      CR followed by LF is one boundary; no empty last line is produced.\<close>
  "splitlines_from acc [] = (if acc = [] then [] else [rev acc])"
| "splitlines_from acc [c] =
     (if is_linebreak c then [rev acc] else [rev (c # acc)])"
| "splitlines_from acc (c # d # cs) =
     (if c = CHR 0x0D \<and> d = CHR 0x0A then rev acc # splitlines_from [] cs
      else if is_linebreak c then rev acc # splitlines_from [] (d # cs)
      else splitlines_from (c # acc) (d # cs))"

definition splitlines :: "string \<Rightarrow> string list" where
  "splitlines s = splitlines_from [] s"

fun universal_newlines :: "string \<Rightarrow> string" where
  \<comment> \<open>\<open>subprocess.run(..., text=True)\<close>: CR LF and a lone CR in captured output become LF\<close>
  "universal_newlines [] = []"
| "universal_newlines [c] = (if c = CHR 0x0D then [CHR 0x0A] else [c])"
| "universal_newlines (c # d # cs) =
     (if c = CHR 0x0D \<and> d = CHR 0x0A then CHR 0x0A # universal_newlines cs
      else if c = CHR 0x0D then CHR 0x0A # universal_newlines (d # cs)
      else c # universal_newlines (d # cs))"

section \<open>Data\<close>

datatype py_error = IndexError | KeyError string

text \<open>
  A container as \<open>get_lxc_containers\<close> and the first loop of \<open>main\<close> build it: the fields
  \<open>vmid\<close> and \<open>running\<close>, and \<open>version\<close> once the os-release data has been read
  (\<open>None\<close>: the key \<open>'version'\<close> is not in the dictionary).
\<close>

record container =
  vmid :: string
  running :: bool
  version :: "(string \<rightharpoonup> string) option"

text \<open>The value \<open>subprocess.run\<close> returns, with the output already decoded as text.\<close>

record completed =
  returncode :: int
  stdout :: string
  stderr :: string

text \<open>
  The commands the program runs inside a container, one constructor for each command
  line of the source; the first argument is the container id after \<open>pct exec\<close>.
\<close>

datatype command =
    CatOsRelease string
      \<comment> \<open>\<open>cat /etc/os-release\<close>\<close>
  | CommandVSshd string
      \<comment> \<open>\<open>sh -c 'command -v sshd > /dev/null 2>&1'\<close>\<close>
  | ServiceCheckAlpine string
      \<comment> \<open>\<open>rc-update show | grep sshd | grep -q default && rc-service sshd status | grep -q started\<close>\<close>
  | ServiceCheckSystemd string
      \<comment> \<open>\<open>systemctl is-enabled ssh && systemctl is-active ssh\<close>\<close>
  | ConfigureAlpine string
      \<comment> \<open>\<open>rc-update add sshd && rc-service sshd start\<close>\<close>
  | ConfigureSystemd string
      \<comment> \<open>\<open>systemctl enable ssh && systemctl start ssh\<close>\<close>
  | InstallApk string
      \<comment> \<open>\<open>apk add --no-cache openssh && rc-update add sshd && rc-service sshd start\<close>\<close>
  | InstallApt string
      \<comment> \<open>\<open>apt-get update && apt-get install -y openssh-server && systemctl enable ssh && systemctl start ssh\<close>\<close>
  | InstallYum string
      \<comment> \<open>\<open>yum install -y openssh-server && systemctl enable sshd && systemctl start sshd\<close>\<close>
  | GrepPasswordAuthentication string
      \<comment> \<open>\<open>[ -f /etc/ssh/sshd_config ] && grep PasswordAuthentication /etc/ssh/sshd_config || exit 1\<close>\<close>
  | SedPasswordAuthentication string string
      \<comment> \<open>\<open>sed -E -i 's|^#?(PasswordAuthentication)\s.*|\1 <status>|' /etc/ssh/sshd_config\<close>\<close>
  | RestartService string
      \<comment> \<open>\<open>service ssh restart\<close>\<close>
  | RestartSystemctl string
      \<comment> \<open>\<open>systemctl restart ssh\<close>\<close>
  | KeysScript string string bool
      \<comment> \<open>the shell script of \<open>add_ssh_public_keys\<close> with the keys and the flag filled in\<close>

fun target :: "command \<Rightarrow> string" where
  "target (CatOsRelease v) = v"
| "target (CommandVSshd v) = v"
| "target (ServiceCheckAlpine v) = v"
| "target (ServiceCheckSystemd v) = v"
| "target (ConfigureAlpine v) = v"
| "target (ConfigureSystemd v) = v"
| "target (InstallApk v) = v"
| "target (InstallApt v) = v"
| "target (InstallYum v) = v"
| "target (GrepPasswordAuthentication v) = v"
| "target (SedPasswordAuthentication v status) = v"
| "target (RestartService v) = v"
| "target (RestartSystemctl v) = v"
| "target (KeysScript v keys remove_existing) = v"

text \<open>
  \<open>subprocess.run\<close> as the program sees it: a command changes the world and a completed
  process comes back. The Python functions below take it as their first argument.
\<close>

type_synonym 'w runner = "command \<Rightarrow> 'w \<Rightarrow> completed \<times> 'w"

section \<open>get_linux_version\<close>

fun os_release_dict :: "string list list \<Rightarrow> (string \<rightharpoonup> string) \<Rightarrow> py_error + (string \<rightharpoonup> string)" where
  \<comment> \<open>the dict comprehension over the split lines: \<open>item[1]\<close> raises IndexError on a
      one-element item; a later line with the same key replaces the earlier value\<close>
  "os_release_dict [] d = Inr d"
| "os_release_dict (item # items) d =
     (case item of
        k # v # _ \<Rightarrow> os_release_dict items (d(lower k \<mapsto> filter (\<lambda>c. c \<noteq> CHR 0x22) v))
      | _ \<Rightarrow> Inl IndexError)"

definition parse_os_release :: "string \<Rightarrow> py_error + (string \<rightharpoonup> string)" where
  "parse_os_release out = os_release_dict (map (split_on CHR ''='') (splitlines out)) Map.empty"

definition get_linux_version :: "'w runner \<Rightarrow> string \<Rightarrow> 'w \<Rightarrow> (py_error + (string \<rightharpoonup> string)) \<times> 'w" where
  "get_linux_version run v w =
     (let (result, w1) = run (CatOsRelease v) w
      in (parse_os_release (stdout result), w1))"

section \<open>install_openssh\<close>

definition version_id :: "container \<Rightarrow> py_error + string" where
  \<comment> \<open>\<open>container['version']['id']\<close>\<close>
  "version_id c =
     (case version c of
        None \<Rightarrow> Inl (KeyError ''version'')
      | Some d \<Rightarrow> (case d ''id'' of None \<Rightarrow> Inl (KeyError ''id'') | Some i \<Rightarrow> Inr i))"

definition install_command :: "string \<Rightarrow> string \<Rightarrow> command option" where
  \<comment> \<open>the \<open>if\<close>/\<open>elif\<close> chain that picks the package manager; \<open>None\<close> is its \<open>else\<close>\<close>
  "install_command v i =
     (if i = ''alpine'' then Some (InstallApk v)
      else if i \<in> set [''debian'', ''ubuntu''] then Some (InstallApt v)
      else if i \<in> set [''centos'', ''rhel'', ''fedora''] then Some (InstallYum v)
      else None)"

definition install_openssh :: "'w runner \<Rightarrow> container \<Rightarrow> 'w \<Rightarrow> (py_error + bool \<times> string) \<times> 'w" where
  "install_openssh run c w =
     (let (check_result, w1) = run (CommandVSshd (vmid c)) w
      in case version_id c of
           Inl e \<Rightarrow> (Inl e, w1)
         | Inr i \<Rightarrow>
             if returncode check_result = 0 then
               (let (service_check_result, w2) =
                      run (if i = ''alpine'' then ServiceCheckAlpine (vmid c)
                           else ServiceCheckSystemd (vmid c)) w1
                in if returncode service_check_result = 0
                   then (Inr (False, ''OpenSSH is already installed and properly configured.''), w2)
                   else (let (configure_result, w3) =
                               run (if i = ''alpine'' then ConfigureAlpine (vmid c)
                                    else ConfigureSystemd (vmid c)) w2
                         in (Inr (True, ''SSH service started and enabled.''), w3)))
             else
               (case install_command (vmid c) i of
                  None \<Rightarrow> (Inr (False, ''Unsupported Linux distribution, '' @ i @ ''.''), w1)
                | Some install \<Rightarrow>
                    (let (install_result, w2) = run install w1
                     in if returncode install_result \<noteq> 0
                        then (Inr (False, ''Failed to install OpenSSH in container '' @ vmid c
                                          @ '': '' @ strip (stderr install_result)), w2)
                        else (Inr (True, ''OpenSSH successfully installed and configured in container ''
                                         @ vmid c @ ''.''), w2))))"

section \<open>set_ssh_password_authentication\<close>

definition directive :: "string \<Rightarrow> string" where
  \<comment> \<open>\<open>f'PasswordAuthentication {status}'\<close>\<close>
  "directive status = ''PasswordAuthentication '' @ status"

definition already_set :: "string \<Rightarrow> string \<Rightarrow> bool" where
  \<comment> \<open>the \<open>for\<close> loop over \<open>result.stdout.splitlines()\<close> with its early return\<close>
  "already_set status out = list_ex (\<lambda>line. startswith line (directive status)) (splitlines out)"

definition set_ssh_password_authentication ::
    "'w runner \<Rightarrow> container \<Rightarrow> string \<Rightarrow> 'w \<Rightarrow> (py_error + bool \<times> string) \<times> 'w" where
  "set_ssh_password_authentication run c status w =
     (let (result, w1) = run (GrepPasswordAuthentication (vmid c)) w
      in if returncode result \<noteq> 0 then (Inr (True, ''SSH not installed or not configured.''), w1)
         else if already_set status (stdout result)
           then (Inr (False, ''Already set to the desired status.''), w1)
         else (let (sed_result, w2) = run (SedPasswordAuthentication (vmid c) status) w1
               in case version_id c of
                    Inl e \<Rightarrow> (Inl e, w2)
                  | Inr i \<Rightarrow>
                      (let (restart_result, w3) =
                             run (if i = ''alpine'' then RestartService (vmid c)
                                  else RestartSystemctl (vmid c)) w2
                       in (Inr (True, ''PasswordAuthentication set to '' @ status), w3))))"

section \<open>add_ssh_public_keys\<close>

text \<open>
  The files of the host are a map from path to content; \<open>open\<close> raises FileNotFoundError,
  which the function catches, where the map has no entry.
\<close>

definition add_ssh_public_keys ::
    "'w runner \<Rightarrow> (string \<rightharpoonup> string) \<Rightarrow> container \<Rightarrow> string \<Rightarrow> bool \<Rightarrow> 'w \<Rightarrow> (bool \<times> string) \<times> 'w" where
  "add_ssh_public_keys run files c key_file remove_existing w =
     (case files key_file of
        None \<Rightarrow> ((False, ''Key file '' @ [CHR 0x27] @ key_file @ [CHR 0x27] @ '' not found.''), w)
      | Some content \<Rightarrow>
          (let keys = strip content
           in if keys = [] then ((False, ''Key file is empty.''), w)
              else (let (result, w1) = run (KeysScript (vmid c) keys remove_existing) w
                    in if returncode result = 0
                         then ((False, ''No changes were made to container.''), w1)
                       else if returncode result = 1
                         then ((True, ''SSH keys successfully added to container.''), w1)
                       else ((True, ''Failed to add SSH keys to container: ''
                                    @ strip (stderr result)), w1))))"

section \<open>main\<close>

text \<open>
  One call of \<open>print_progress_bar\<close>: the position in the loop, the number of containers,
  the message printed above the bar (if any) and the container name after it. A stage's
  report is the list of these calls.
\<close>

record progress =
  bar_iteration :: nat
  bar_total :: nat
  bar_message :: "string option"
  bar_suffix :: string

definition not_running :: "string \<Rightarrow> container \<Rightarrow> string" where
  \<comment> \<open>\<open>f"Container {name} ({data['vmid']}) is not running."\<close>\<close>
  "not_running name data = ''Container '' @ name @ '' ('' @ vmid data @ '') is not running.''"

definition about :: "string \<Rightarrow> container \<Rightarrow> string \<Rightarrow> string" where
  \<comment> \<open>\<open>f"Container {name} ({data['vmid']}) {message}"\<close>\<close>
  "about name data msg = ''Container '' @ name @ '' ('' @ vmid data @ '') '' @ msg"

type_synonym 'w body = "string \<Rightarrow> container \<Rightarrow> 'w \<Rightarrow> (py_error + container \<times> string option) \<times> 'w"

fun for_containers ::
    "'w body \<Rightarrow> nat \<Rightarrow> nat \<Rightarrow> (string \<times> container) list \<Rightarrow> 'w
       \<Rightarrow> (py_error + (string \<times> container) list \<times> progress list) \<times> 'w" where
  \<comment> \<open>\<open>for i, (name, data) in enumerate(containers.items())\<close>: the body gives the message
      (and the container, which the first loop updates), then the bar is printed with
      \<open>i + 1\<close>; an exception in the body ends the loop and the run\<close>
  "for_containers body n i [] w = (Inr ([], []), w)"
| "for_containers body n i ((name, data) # rest) w =
     (case body name data w of
        (Inl e, w1) \<Rightarrow> (Inl e, w1)
      | (Inr (data1, msg), w1) \<Rightarrow>
          (case for_containers body n (Suc i) rest w1 of
             (Inl e, w2) \<Rightarrow> (Inl e, w2)
           | (Inr (cs, bars), w2) \<Rightarrow>
               (Inr ((name, data1) # cs,
                     \<lparr>bar_iteration = Suc i, bar_total = n, bar_message = msg, bar_suffix = name\<rparr> # bars),
                w2)))"

definition version_body :: "'w runner \<Rightarrow> 'w body" where
  "version_body run name data w =
     (if running data then
        (case get_linux_version run (vmid data) w of
           (Inl e, w1) \<Rightarrow> (Inl e, w1)
         | (Inr v, w1) \<Rightarrow> (Inr (data\<lparr>version := Some v\<rparr>, None), w1))
      else (Inr (data, Some (not_running name data)), w))"

definition reconcile_body :: "(container \<Rightarrow> 'w \<Rightarrow> (py_error + bool \<times> string) \<times> 'w) \<Rightarrow> 'w body" where
  \<comment> \<open>the body shared by the three reconciler loops\<close>
  "reconcile_body reconciler name data w =
     (if running data then
        (case reconciler data w of
           (Inl e, w1) \<Rightarrow> (Inl e, w1)
         | (Inr (result, msg), w1) \<Rightarrow>
             (Inr (data, if result then Some (about name data msg) else None), w1))
      else (Inr (data, Some (not_running name data)), w))"

record report =
  os_info :: "progress list"
  package_service :: "progress list"
  password_auth :: "progress list"
  keys_stage :: "progress list option"

definition main :: "'w runner \<Rightarrow> (string \<rightharpoonup> string) \<Rightarrow> (string \<times> container) list \<Rightarrow> 'w \<Rightarrow> (py_error + report) \<times> 'w" where
  \<comment> \<open>\<open>containers\<close> is the dictionary \<open>get_lxc_containers\<close> returned, in its order;
      \<open>os.path.exists('keys.pub')\<close> reads the same files as \<open>open\<close>\<close>
  "main run files containers w =
     (let container_count = length containers
      in case for_containers (version_body run) container_count 0 containers w of
           (Inl e, w1) \<Rightarrow> (Inl e, w1)
         | (Inr (cs1, out1), w1) \<Rightarrow>
       (case for_containers (reconcile_body (install_openssh run)) container_count 0 cs1 w1 of
           (Inl e, w2) \<Rightarrow> (Inl e, w2)
         | (Inr (cs2, out2), w2) \<Rightarrow>
       (case for_containers (reconcile_body (\<lambda>c. set_ssh_password_authentication run c ''no''))
               container_count 0 cs2 w2 of
           (Inl e, w3) \<Rightarrow> (Inl e, w3)
         | (Inr (cs3, out3), w3) \<Rightarrow>
       (if files ''keys.pub'' \<noteq> None then
          (case for_containers
                  (reconcile_body (\<lambda>c w. case add_ssh_public_keys run files c ''keys.pub'' True w of
                                            (r, w') \<Rightarrow> (Inr r, w')))
                  container_count 0 cs3 w3 of
             (Inl e, w4) \<Rightarrow> (Inl e, w4)
           | (Inr (cs4, out4), w4) \<Rightarrow>
               (Inr \<lparr>os_info = out1, package_service = out2, password_auth = out3,
                     keys_stage = Some out4\<rparr>, w4))
        else (Inr \<lparr>os_info = out1, package_service = out2, password_auth = out3,
                   keys_stage = None\<rparr>, w3)))))"

section \<open>The commands inside a container\<close>

text \<open>
  The part of a container the commands read and write: the os-release file, the SSH
  server configuration, root's \<open>.ssh\<close> directory and authorized-keys file (\<open>None\<close>: the file
  does not exist), and whether the file system takes writes. Package and service
  management is not modelled: \<open>services\<close> gives the exit status and error output the
  container answers to those commands. File modes are not tracked, so \<open>chmod\<close> has no
  effect here.
\<close>

record remote =
  os_release :: "string option"
  sshd_config :: "string option"
  writable :: bool
  ssh_dir :: bool
  authorized_keys :: "string option"
  services :: "command \<Rightarrow> int \<times> string"

definition text_lines :: "string \<Rightarrow> string list" where
  \<comment> \<open>the lines of a text file as \<open>grep\<close>, \<open>sed\<close> and \<open>read\<close> see them: a final newline
      ends the last line and does not start another\<close>
  "text_lines s = (let ps = split_on CHR 0x0A s in if last ps = [] then butlast ps else ps)"

definition unlines :: "string list \<Rightarrow> string" where
  "unlines ls = concat (map (\<lambda>l. l @ [CHR 0x0A]) ls)"

fun contains :: "string \<Rightarrow> string \<Rightarrow> bool" where
  "contains needle [] = (needle = [])"
| "contains needle (c # cs) = (startswith (c # cs) needle \<or> contains needle cs)"

definition grep_probe :: "string option \<Rightarrow> int \<times> string" where
  \<comment> \<open>\<open>[ -f /etc/ssh/sshd_config ] && grep PasswordAuthentication /etc/ssh/sshd_config || exit 1\<close>\<close>
  "grep_probe config =
     (case config of
        None \<Rightarrow> (1, [])
      | Some content \<Rightarrow>
          (let found = filter (contains ''PasswordAuthentication'') (text_lines content)
           in if found = [] then (1, []) else (0, unlines found)))"

definition regex_space :: "char \<Rightarrow> bool" where
  \<comment> \<open>\<open>\s\<close>: space, TAB, LF, VT, FF, CR\<close>
  "regex_space c = (c \<in> set [CHR 0x20, CHR 0x09, CHR 0x0A, CHR 0x0B, CHR 0x0C, CHR 0x0D])"

fun after_prefix :: "string \<Rightarrow> string \<Rightarrow> string option" where
  \<comment> \<open>what follows the prefix, when the string starts with it\<close>
  "after_prefix [] s = Some s"
| "after_prefix (p # ps) [] = None"
| "after_prefix (p # ps) (c # cs) = (if p = c then after_prefix ps cs else None)"

definition sed_matches :: "string \<Rightarrow> bool" where
  \<comment> \<open>the line matches \<open>^#?(PasswordAuthentication)\s.*\<close>; the match then covers the whole line\<close>
  "sed_matches line =
     (let rest = (case line of c # cs \<Rightarrow> if c = CHR ''#'' then cs else line | [] \<Rightarrow> line)
      in case after_prefix ''PasswordAuthentication'' rest of
           Some (c # _) \<Rightarrow> regex_space c
         | _ \<Rightarrow> False)"

definition sed_line :: "string \<Rightarrow> string \<Rightarrow> string" where
  \<comment> \<open>\<open>s|^#?(PasswordAuthentication)\s.*|\1 <status>|\<close> on one line\<close>
  "sed_line status line = (if sed_matches line then ''PasswordAuthentication'' @ '' '' @ status else line)"

fun join_lines :: "string list \<Rightarrow> string" where
  "join_lines [] = []"
| "join_lines [l] = l"
| "join_lines (l # m # ls) = l @ CHR 0x0A # join_lines (m # ls)"

definition sed_rewrite :: "string \<Rightarrow> string \<Rightarrow> string" where
  \<comment> \<open>the file after \<open>sed -i\<close>: every line substituted, the line ends as they were\<close>
  "sed_rewrite status content = join_lines (map (sed_line status) (split_on CHR 0x0A content))"

definition sed_in_place :: "string \<Rightarrow> remote \<Rightarrow> int \<times> remote" where
  \<comment> \<open>\<open>sed -i\<close> fails, and leaves the file, when it cannot read or replace it\<close>
  "sed_in_place status s =
     (case sshd_config s of
        None \<Rightarrow> (2, s)
      | Some content \<Rightarrow>
          if writable s then (0, s\<lparr>sshd_config := Some (sed_rewrite status content)\<rparr>)
          else (4, s))"

text \<open>
  The shell script of \<open>add_ssh_public_keys\<close>. Python writes the keys and the flag into the
  script text in place of \<open>$1\<close> and \<open>$2\<close>; the model takes \<open>KEYS\<close> to be the keys as they
  are, which holds for keys without quote, dollar, backquote and backslash characters.
  The script checks no exit status and has no \<open>set -e\<close>: a \<open>mkdir\<close>, \<open>chmod\<close> or redirection
  that fails prints a diagnostic and the script goes on. Each branch of its last \<open>if\<close>
  ends in \<open>exit 0\<close> or \<open>exit 1\<close>, so the final \<open>exit 2\<close> is never reached.
\<close>

definition command_substitution :: "string \<Rightarrow> string" where
  \<comment> \<open>\<open>$(cat "$AUTHORIZED_KEYS")\<close>: the output without its trailing newlines\<close>
  "command_substitution out = rev (dropWhile (\<lambda>c. c = CHR 0x0A) (rev out))"

definition echo_lines :: "string \<Rightarrow> string list" where
  \<comment> \<open>the lines \<open>echo "$X"\<close> sends down a pipe: the value and a newline\<close>
  "echo_lines x = text_lines (x @ [CHR 0x0A])"

fun merge_loop :: "string \<Rightarrow> string list \<Rightarrow> string \<Rightarrow> string" where
  \<comment> \<open>\<open>while IFS= read -r key\<close>: a key that \<open>grep -qxF\<close> does not find as a whole line of
      \<open>echo "$EXISTING_KEYS"\<close> is appended to \<open>UPDATED_KEYS\<close> after a newline\<close>
  "merge_loop existing_keys [] updated_keys = updated_keys"
| "merge_loop existing_keys (key # rest) updated_keys =
     merge_loop existing_keys rest
       (if key \<in> set (echo_lines existing_keys) then updated_keys
        else updated_keys @ CHR 0x0A # key)"

definition in_subshell :: "('v \<Rightarrow> 'v) \<Rightarrow> 'v \<Rightarrow> 'v" where
  \<comment> \<open>the loop is the last command of the pipeline \<open>echo "$KEYS" | while ...\<close>. The shells
      behind \<open>sh\<close> in the containers (dash, BusyBox ash, bash) run every command of a
      pipeline in a subshell: the loop assigns to a copy of the variables, and the copy
      ends with the pipeline.\<close>
  "in_subshell body vars = (let copy = body vars in vars)"

definition mkdir_p :: "remote \<Rightarrow> remote" where
  \<comment> \<open>\<open>mkdir -p /root/.ssh\<close>\<close>
  "mkdir_p s = (if \<not> ssh_dir s \<and> writable s then s\<lparr>ssh_dir := True\<rparr> else s)"

definition write_authorized_keys :: "string \<Rightarrow> remote \<Rightarrow> remote" where
  \<comment> \<open>\<open>echo "$UPDATED_KEYS" > "$AUTHORIZED_KEYS"\<close>\<close>
  "write_authorized_keys text s =
     (if ssh_dir s \<and> writable s then s\<lparr>authorized_keys := Some (text @ [CHR 0x0A])\<rparr> else s)"

definition keys_script :: "string \<Rightarrow> bool \<Rightarrow> remote \<Rightarrow> int \<times> remote" where
  "keys_script keys remove_existing s =
     (let s1 = mkdir_p s;
          existing_keys = (case authorized_keys s1 of
                             Some content \<Rightarrow> command_substitution content
                           | None \<Rightarrow> []);
          updated_keys = (if remove_existing then keys
                          else in_subshell (merge_loop existing_keys (echo_lines keys)) existing_keys)
      in if updated_keys = existing_keys then (0, s1)
         else (1, write_authorized_keys updated_keys s1))"

text \<open>
  One command in one container. \<open>pct exec\<close> hands back the exit status of the command it
  ran. The error output of the modelled commands is left empty.
\<close>

fun remote_exec :: "command \<Rightarrow> remote \<Rightarrow> completed \<times> remote" where
  "remote_exec (CatOsRelease v) s =
     (case os_release s of
        None \<Rightarrow> (\<lparr>returncode = 1, stdout = [], stderr = []\<rparr>, s)
      | Some content \<Rightarrow> (\<lparr>returncode = 0, stdout = universal_newlines content, stderr = []\<rparr>, s))"
| "remote_exec (GrepPasswordAuthentication v) s =
     (case grep_probe (sshd_config s) of
        (rc, out) \<Rightarrow> (\<lparr>returncode = rc, stdout = universal_newlines out, stderr = []\<rparr>, s))"
| "remote_exec (SedPasswordAuthentication v status) s =
     (case sed_in_place status s of
        (rc, s1) \<Rightarrow> (\<lparr>returncode = rc, stdout = [], stderr = []\<rparr>, s1))"
| "remote_exec (KeysScript v keys remove_existing) s =
     (case keys_script keys remove_existing s of
        (rc, s1) \<Rightarrow> (\<lparr>returncode = rc, stdout = [], stderr = []\<rparr>, s1))"
| "remote_exec cmd s =
     (\<lparr>returncode = fst (services s cmd), stdout = [], stderr = snd (services s cmd)\<rparr>, s)"

definition pct_exec :: "(string \<Rightarrow> remote) runner" where
  \<comment> \<open>the host: every container id with its container\<close>
  "pct_exec cmd host =
     (case remote_exec cmd (host (target cmd)) of
        (result, s) \<Rightarrow> (result, host(target cmd := s)))"

definition traced :: "'w runner \<Rightarrow> ('w \<times> command list) runner" where
  \<comment> \<open>a runner that also keeps the list of the commands run, in order\<close>
  "traced run cmd = (\<lambda>(w, log). case run cmd w of (result, w1) \<Rightarrow> (result, (w1, log @ [cmd])))"

section \<open>Notions for the statements\<close>


definition exotic_break :: "char \<Rightarrow> bool" where
  \<comment> \<open>the line boundaries of \<open>str.splitlines\<close> other than LF\<close>
  "exotic_break c = (c \<in> set [CHR 0x0B, CHR 0x0C, CHR 0x0D, CHR 0x1C, CHR 0x1D, CHR 0x1E])"

definition plain_text :: "string \<Rightarrow> bool" where
  \<comment> \<open>text whose only line boundary is LF\<close>
  "plain_text s = (\<not> list_ex exotic_break s)"


definition id_line :: "string \<Rightarrow> string \<Rightarrow> bool" where
  \<comment> \<open>a line whose key is \<open>id\<close> in any case and whose value, without double quotes, is \<open>i\<close>\<close>
  "id_line i line =
     (case split_on CHR ''='' line of
        k # value # _ \<Rightarrow> lower k = ''id'' \<and> i = filter (\<lambda>c. c \<noteq> CHR 0x22) value
      | _ \<Rightarrow> False)"

text \<open>
  For the report of \<open>main\<close>: what identifies a container through the run, the entry a
  container has in a stage's report, commands aimed at running containers only, commands
  that have reached every running container, and what the loop lemma asks of a loop body.
\<close>

definition ident :: "string \<times> container \<Rightarrow> string \<times> string \<times> bool" where
  "ident item = (fst item, vmid (snd item), running (snd item))"

definition entry_of :: "string \<times> string \<times> bool \<Rightarrow> progress \<Rightarrow> bool" where
  "entry_of = (\<lambda>(name, v, r) bar. bar_suffix bar = name \<and>
       (\<not> r \<longrightarrow> bar_message bar = Some (''Container '' @ name @ '' ('' @ v @ '') is not running.'')))"

definition reported :: "string \<times> container \<Rightarrow> progress \<Rightarrow> bool" where
  \<comment> \<open>the entry carries the container's name, and the not-running message if it does not run\<close>
  "reported item bar = (bar_suffix bar = fst item \<and>
       (\<not> running (snd item) \<longrightarrow> bar_message bar = Some (not_running (fst item) (snd item))))"

definition aimed :: "(string \<times> string \<times> bool) list \<Rightarrow> command list \<Rightarrow> bool" where
  "aimed ids new = (\<forall>cmd\<in>set new. \<exists>(name, v, r)\<in>set ids. r \<and> target cmd = v)"

definition reached :: "(string \<Rightarrow> command set) \<Rightarrow> (string \<times> string \<times> bool) list \<Rightarrow> command list \<Rightarrow> bool" where
  "reached first ids new = (\<forall>(name, v, r)\<in>set ids. r \<longrightarrow> first v \<subseteq> set new)"

definition body_ok :: "(string \<Rightarrow> command set) \<Rightarrow> ('w \<times> command list) body \<Rightarrow> bool" where
  "body_ok first b =
     (\<forall>name data w log.
        (\<not> running data \<longrightarrow> b name data (w, log) = (Inr (data, Some (not_running name data)), (w, log)))
      \<and> (running data \<longrightarrow>
           (\<exists>new. snd (snd (b name data (w, log))) = log @ new
                \<and> (\<forall>cmd\<in>set new. target cmd = vmid data)
                \<and> first (vmid data) \<subseteq> set new)
         \<and> (\<forall>data1 msg. fst (b name data (w, log)) = Inr (data1, msg) \<longrightarrow>
                vmid data1 = vmid data \<and> running data1 = running data)))"

definition keys_command :: "(string \<rightharpoonup> string) \<Rightarrow> string \<Rightarrow> command set" where
  \<comment> \<open>the key script as the keys stage runs it in container \<open>v\<close>, if the key file has keys\<close>
  "keys_command files v =
     (case files ''keys.pub'' of
        None \<Rightarrow> {}
      | Some content \<Rightarrow> if strip content = [] then {} else {KeysScript v (strip content) True})"

definition keys_body :: "'w runner \<Rightarrow> (string \<rightharpoonup> string) \<Rightarrow> 'w body" where
  \<comment> \<open>the body of the last loop of \<open>main\<close>\<close>
  "keys_body run files =
     reconcile_body (\<lambda>c w. case add_ssh_public_keys run files c ''keys.pub'' True w of
                               (r, w') \<Rightarrow> (Inr r, w'))"

section \<open>Examples\<close>

text \<open>Concrete containers, hosts and fleets for the evaluations below.\<close>

definition no_services :: "command \<Rightarrow> int \<times> string" where
  \<comment> \<open>a container that answers every package and service command with exit status 1\<close>
  "no_services cmd = (1, [])"

definition single :: "remote \<Rightarrow> string \<Rightarrow> remote" where
  \<comment> \<open>a host on which every id names the same container\<close>
  "single s v = s"

definition centos7 :: remote where
  \<comment> \<open>an os-release file with an empty line, as CentOS 7 ships it\<close>
  "centos7 =
     \<lparr>os_release = Some ''NAME=\"CentOS Linux\"\<newline>ID=\"centos\"\<newline>\<newline>HOME_URL=\"https://www.centos.org/\"\<newline>'',
      sshd_config = None, writable = True, ssh_dir = False, authorized_keys = None,
      services = no_services\<rparr>"

definition alpine_release :: remote where
  "alpine_release =
     \<lparr>os_release = Some ''NAME=\"Alpine Linux\"\<newline>ID=alpine\<newline>'',
      sshd_config = None, writable = True, ssh_dir = False, authorized_keys = None,
      services = no_services\<rparr>"

definition blank_keys_host :: "string \<rightharpoonup> string" where
  \<comment> \<open>host files: a key file with white space only\<close>
  "blank_keys_host = [''keys.pub'' \<mapsto> '' \<newline>'']"

definition debian_container :: container where
  "debian_container = \<lparr>vmid = ''101'', running = True, version = Some [''id'' \<mapsto> ''debian'']\<rparr>"

definition read_only_debian :: remote where
  \<comment> \<open>a container whose file system takes no writes\<close>
  "read_only_debian =
     \<lparr>os_release = Some ''ID=debian\<newline>'',
      sshd_config = Some ''#PasswordAuthentication yes\<newline>'',
      writable = False, ssh_dir = False, authorized_keys = None,
      services = no_services\<rparr>"

definition longer_value :: remote where
  "longer_value =
     \<lparr>os_release = Some ''ID=debian\<newline>'',
      sshd_config = Some ''PasswordAuthentication nope\<newline>'',
      writable = True, ssh_dir = False, authorized_keys = None,
      services = no_services\<rparr>"



text \<open>A container with \<open>sshd\<close> on the path and every other package or service command failing.\<close>

fun installed_not_enabled :: "command \<Rightarrow> int \<times> string" where
  "installed_not_enabled (CommandVSshd v) = (0, [])"
| "installed_not_enabled cmd = (1, [])"

definition capital_alpine :: remote where
  "capital_alpine =
     \<lparr>os_release = Some ''NAME=\"Alpine Linux\"\<newline>ID=Alpine\<newline>'',
      sshd_config = None, writable = True, ssh_dir = False, authorized_keys = None,
      services = no_services\<rparr>"

definition arch_with_sshd :: remote where
  "arch_with_sshd =
     \<lparr>os_release = Some ''NAME=\"Arch Linux\"\<newline>ID=arch\<newline>'',
      sshd_config = None, writable = True, ssh_dir = False, authorized_keys = None,
      services = installed_not_enabled\<rparr>"

definition with_id :: "string \<Rightarrow> container" where
  "with_id i = \<lparr>vmid = ''101'', running = True, version = Some [''id'' \<mapsto> i]\<rparr>"

definition with_version :: "py_error + (string \<rightharpoonup> string) \<Rightarrow> container" where
  \<comment> \<open>container 101 after \<open>containers[name]['version'] = get_linux_version(...)\<close>\<close>
  "with_version r = \<lparr>vmid = ''101'', running = True, version = (case r of Inl e \<Rightarrow> None | Inr d \<Rightarrow> Some d)\<rparr>"

text \<open>Host files with the canonical keys B and C; a container that authorizes A and B.\<close>

definition keys_B_C :: "string \<rightharpoonup> string" where
  "keys_B_C = [''keys.pub'' \<mapsto> ''B\<newline>C\<newline>'']"

definition keys_A_B :: remote where
  "keys_A_B =
     \<lparr>os_release = Some ''ID=debian\<newline>'', sshd_config = None,
      writable = True, ssh_dir = True, authorized_keys = Some ''A\<newline>B\<newline>'',
      services = no_services\<rparr>"

definition no_sshd_config :: remote where
  "no_sshd_config =
     \<lparr>os_release = Some ''ID=debian\<newline>'', sshd_config = None,
      writable = True, ssh_dir = False, authorized_keys = None,
      services = no_services\<rparr>"

text \<open>A configuration whose only directive line is commented out with a space after \<open>#\<close>.\<close>

definition spaced_comment :: remote where
  "spaced_comment =
     \<lparr>os_release = Some ''ID=debian\<newline>'',
      sshd_config = Some ''# PasswordAuthentication yes\<newline>'',
      writable = True, ssh_dir = False, authorized_keys = None,
      services = no_services\<rparr>"

definition no_files :: "string \<rightharpoonup> string" where
  \<comment> \<open>a host without \<open>keys.pub\<close>\<close>
  "no_files = Map.empty"

definition fleet :: "(string \<times> container) list" where
  "fleet = [(''web'', \<lparr>vmid = ''101'', running = True, version = None\<rparr>),
            (''db'', \<lparr>vmid = ''102'', running = False, version = None\<rparr>)]"

definition two_containers :: "string \<Rightarrow> remote" where
  "two_containers v = (if v = ''101'' then centos7 else no_sshd_config)"

definition both_running :: "(string \<times> container) list" where
  "both_running = [(''old'', \<lparr>vmid = ''101'', running = True, version = None\<rparr>),
                   (''web'', \<lparr>vmid = ''102'', running = True, version = None\<rparr>)]"

definition fleet_report :: report where
  "fleet_report =
     \<lparr>os_info =
            [\<lparr>bar_iteration = 1, bar_total = 2, bar_message = None, bar_suffix = ''web''\<rparr>,
             \<lparr>bar_iteration = 2, bar_total = 2,
              bar_message = Some ''Container db (102) is not running.'', bar_suffix = ''db''\<rparr>],
          package_service =
            [\<lparr>bar_iteration = 1, bar_total = 2, bar_message = None, bar_suffix = ''web''\<rparr>,
             \<lparr>bar_iteration = 2, bar_total = 2,
              bar_message = Some ''Container db (102) is not running.'', bar_suffix = ''db''\<rparr>],
          password_auth =
            [\<lparr>bar_iteration = 1, bar_total = 2,
              bar_message = Some ''Container web (101) SSH not installed or not configured.'',
              bar_suffix = ''web''\<rparr>,
             \<lparr>bar_iteration = 2, bar_total = 2,
              bar_message = Some ''Container db (102) is not running.'', bar_suffix = ''db''\<rparr>],
          keys_stage = Some
            [\<lparr>bar_iteration = 1, bar_total = 2,
              bar_message = Some ''Container web (101) SSH keys successfully added to container.'',
              bar_suffix = ''web''\<rparr>,
             \<lparr>bar_iteration = 2, bar_total = 2,
              bar_message = Some ''Container db (102) is not running.'', bar_suffix = ''db''\<rparr>]\<rparr>"

section \<open>Properties\<close>

subsection \<open>Parsing os-release\<close>

lemma split_on_not_Nil: "split_on sep s \<noteq> []"
  by (induction s) (auto split: list.splits)







subsection \<open>The key file checks of add_ssh_public_keys\<close>

lemma strip_blank: "list_all isspace content \<Longrightarrow> strip content = []"
proof -
  assume "list_all isspace content"
  then have blank: "dropWhile isspace content = []"
    by (induction content) simp_all
  show ?thesis unfolding strip_def blank by simp
qed

text \<open>
  C8: when the key file is missing, \<open>add_ssh_public_keys\<close> returns False with the
  "not found" message; when it holds white space only, False with the "empty" message.
  In both cases it returns before any command is run: the world and the list of commands
  run are as before the call.
\<close>

theorem add_ssh_public_keys_key_file_checks:
  "(files key_file = None \<longrightarrow>
      add_ssh_public_keys (traced run) files c key_file remove_existing (w, log) =
        ((False, ''Key file '' @ [CHR 0x27] @ key_file @ [CHR 0x27] @ '' not found.''), (w, log)))
   \<and> (files key_file = Some content \<and> list_all isspace content \<longrightarrow>
      add_ssh_public_keys (traced run) files c key_file remove_existing (w, log) =
        ((False, ''Key file is empty.''), (w, log)))"
  by (simp add: add_ssh_public_keys_def strip_blank)

theorem add_ssh_public_keys_key_file_checks_witness:
  "no_files ''keys.pub'' = None
   \<and> add_ssh_public_keys (traced pct_exec) no_files debian_container ''keys.pub'' True (single centos7, []) =
        ((False, ''Key file 'keys.pub' not found.''), (single centos7, []))
   \<and> blank_keys_host ''keys.pub'' = Some '' \<newline>'' \<and> list_all isspace '' \<newline>''
   \<and> add_ssh_public_keys (traced pct_exec) blank_keys_host debian_container ''keys.pub'' True (single centos7, []) =
        ((False, ''Key file is empty.''), (single centos7, []))"
proof -
  have n: "no_files ''keys.pub'' = None"
    by (simp add: no_files_def)
  have a: "blank_keys_host ''keys.pub'' = Some '' \<newline>''"
    by (simp add: blank_keys_host_def)
  have b: "list_all isspace '' \<newline>''"
    by (simp add: isspace_def)
  show ?thesis
    using n a b
      add_ssh_public_keys_key_file_checks [where files = no_files and key_file = "''keys.pub''"
        and run = pct_exec and c = debian_container and remove_existing = True
        and w = "single centos7" and log = "[]"]
      add_ssh_public_keys_key_file_checks [where files = blank_keys_host and key_file = "''keys.pub''"
        and content = "'' \<newline>''" and run = pct_exec and c = debian_container
        and remove_existing = True and w = "single centos7" and log = "[]"]
    by simp
qed

subsection \<open>The exit status of the rewrite\<close>

text \<open>
  C10: whatever the runner answers to the \<open>sed\<close> and restart commands, once the probe has
  exit status 0 and no line of its output starts with the directive, the function returns
  True with the "set to" message (for a container that carries its os-release \<open>id\<close>, as
  every container does that reaches this stage in \<open>main\<close>). The witness is a container
  with a read-only file system: \<open>sed\<close> exits with 4, the restart with 1.
\<close>

theorem set_ssh_password_authentication_ignores_exit_status:
  assumes "run (GrepPasswordAuthentication (vmid c)) w = (probe, w1)"
    and "returncode probe = 0"
    and "\<not> already_set status (stdout probe)"
    and "version_id c = Inr i"
  shows "fst (set_ssh_password_authentication run c status w) =
           Inr (True, ''PasswordAuthentication set to '' @ status)"
  using assms by (simp add: set_ssh_password_authentication_def split: prod.splits)

lemma probe_read_only:
  "pct_exec (GrepPasswordAuthentication ''101'') (single read_only_debian) =
     (\<lparr>returncode = 0, stdout = ''#PasswordAuthentication yes\<newline>'', stderr = []\<rparr>, single read_only_debian)"
  by (simp add: pct_exec_def single_def read_only_debian_def grep_probe_def text_lines_def unlines_def fun_eq_iff)

theorem set_ssh_password_authentication_ignores_exit_status_witness:
  "returncode (fst (pct_exec (SedPasswordAuthentication ''101'' ''no'') (single read_only_debian))) = 4
   \<and> returncode (fst (pct_exec (RestartSystemctl ''101'') (single read_only_debian))) = 1
   \<and> fst (set_ssh_password_authentication pct_exec debian_container ''no'' (single read_only_debian)) =
       Inr (True, ''PasswordAuthentication set to no'')"
proof -
  have p: "pct_exec (GrepPasswordAuthentication (vmid debian_container)) (single read_only_debian) =
     (\<lparr>returncode = 0, stdout = ''#PasswordAuthentication yes\<newline>'', stderr = []\<rparr>, single read_only_debian)"
    using probe_read_only by (simp add: debian_container_def)
  have q: "\<not> already_set ''no'' ''#PasswordAuthentication yes\<newline>''"
    by (simp add: already_set_def splitlines_def is_linebreak_def directive_def)
  have v: "version_id debian_container = Inr ''debian''"
    by (simp add: version_id_def debian_container_def)
  have s: "returncode (fst (pct_exec (SedPasswordAuthentication ''101'' ''no'') (single read_only_debian))) = 4"
    by (simp add: pct_exec_def single_def read_only_debian_def sed_in_place_def)
  have r: "returncode (fst (pct_exec (RestartSystemctl ''101'') (single read_only_debian))) = 1"
    by (simp add: pct_exec_def single_def read_only_debian_def no_services_def)
  show ?thesis
    using s r q v p
      set_ssh_password_authentication_ignores_exit_status [where run = pct_exec
        and c = debian_container and w = "single read_only_debian" and status = "''no''"
        and probe = "\<lparr>returncode = 0, stdout = ''#PasswordAuthentication yes\<newline>'', stderr = []\<rparr>"
        and ?w1.0 = "single read_only_debian" and i = "''debian''"]
    by simp
qed


subsection \<open>The password-authentication probe\<close>

lemma is_linebreak_iff: "is_linebreak c \<longleftrightarrow> c = CHR 0x0A \<or> exotic_break c"
  by (auto simp: is_linebreak_def exotic_break_def)

lemma universal_newlines_plain: "CHR 0x0D \<notin> set s \<Longrightarrow> universal_newlines s = s"
  by (induction s rule: universal_newlines.induct) auto

lemma splitlines_from_line:
  "\<forall>c\<in>set l. \<not> is_linebreak c \<Longrightarrow>
   splitlines_from acc (l @ CHR 0x0A # rest) = (rev acc @ l) # splitlines_from [] rest"
proof (induction l arbitrary: acc)
  case Nil
  show ?case by (cases rest) (simp_all add: is_linebreak_def)
next
  case (Cons c l)
  then have c: "\<not> is_linebreak c" and l: "\<forall>c\<in>set l. \<not> is_linebreak c" by simp_all
  from c have cr: "c \<noteq> CHR 0x0D" by (auto simp: is_linebreak_def)
  obtain d ds where ds: "l @ CHR 0x0A # rest = d # ds" by (cases l) auto
  have "splitlines_from acc ((c # l) @ CHR 0x0A # rest) = splitlines_from (c # acc) (l @ CHR 0x0A # rest)"
    using c cr ds by simp
  then show ?case using Cons.IH [OF l, of "c # acc"] by simp
qed

lemma splitlines_unlines:
  "\<forall>l\<in>set ls. \<forall>c\<in>set l. \<not> is_linebreak c \<Longrightarrow> splitlines (unlines ls) = ls"
proof (induction ls)
  case Nil
  then show ?case by (simp add: splitlines_def unlines_def)
next
  case (Cons l ls)
  then have "splitlines (unlines ls) = ls" by simp
  moreover have "splitlines_from [] (l @ CHR 0x0A # unlines ls) = l # splitlines_from [] (unlines ls)"
    using splitlines_from_line [of l "[]" "unlines ls"] Cons.prems by simp
  ultimately show ?case by (simp add: splitlines_def unlines_def)
qed

lemma split_on_chars: "l \<in> set (split_on sep s) \<Longrightarrow> set l \<subseteq> set s - {sep}"
proof (induction s arbitrary: l)
  case Nil
  then show ?case by simp
next
  case (Cons c s)
  obtain p ps where ps: "split_on sep s = p # ps"
    using split_on_not_Nil [of sep s] by (cases "split_on sep s") auto
  show ?case
  proof (cases "c = sep")
    case True
    then show ?thesis using Cons ps by auto
  next
    case False
    then have "l = c # p \<or> l \<in> set ps" using Cons.prems ps by simp
    then show ?thesis
    proof
      assume "l = c # p"
      moreover have "set p \<subseteq> set s - {sep}" using Cons.IH [of p] ps by simp
      ultimately show ?thesis using False by auto
    next
      assume "l \<in> set ps"
      then have "set l \<subseteq> set s - {sep}" using Cons.IH [of l] ps by simp
      then show ?thesis by auto
    qed
  qed
qed

lemma text_lines_chars: "l \<in> set (text_lines s) \<Longrightarrow> set l \<subseteq> set s - {CHR 0x0A}"
  using split_on_chars [of l "CHR 0x0A" s]
  by (auto simp: text_lines_def Let_def split: if_splits dest: in_set_butlastD)

lemma text_lines_plain:
  assumes "plain_text s" and "l \<in> set (text_lines s)"
  shows "\<forall>c\<in>set l. \<not> is_linebreak c"
proof
  fix c assume "c \<in> set l"
  then have "c \<in> set s" and "c \<noteq> CHR 0x0A" using text_lines_chars [OF assms(2)] by auto
  then show "\<not> is_linebreak c"
    using assms(1) by (auto simp: is_linebreak_iff plain_text_def list_ex_iff)
qed

lemma startswith_append: "startswith s (p @ q) \<Longrightarrow> startswith s p"
  by (induction s p rule: startswith.induct) auto

lemma startswith_contains: "startswith s p \<Longrightarrow> contains p s"
  by (cases s; cases p) auto

lemma directive_contains: "startswith line (directive status) \<Longrightarrow> contains ''PasswordAuthentication'' line"
proof -
  assume "startswith line (directive status)"
  then have "startswith line (''PasswordAuthentication'' @ '' '' @ status)"
    by (simp add: directive_def)
  then show ?thesis by (intro startswith_contains) (rule startswith_append)
qed

lemma grep_output_lines:
  assumes "plain_text content"
  shows "splitlines (universal_newlines (unlines (filter P (text_lines content)))) = filter P (text_lines content)"
proof -
  let ?found = "filter P (text_lines content)"
  have lines: "\<forall>l\<in>set ?found. \<forall>c\<in>set l. \<not> is_linebreak c"
    using text_lines_plain [OF assms] by auto
  then have "CHR 0x0D \<notin> set (unlines ?found)"
    by (auto simp: unlines_def is_linebreak_def)
  then show ?thesis using splitlines_unlines [OF lines] by (simp add: universal_newlines_plain)
qed

text \<open>
  C5, as the claim states it, fails: with the desired value \<open>no\<close> and a file whose only
  line is \<open>PasswordAuthentication nope\<close>, the function answers "Already set to the desired
  status.", although no line of the file equals \<open>PasswordAuthentication no\<close>.
\<close>

theorem password_auth_probe_accepts_longer_value:
  "fst (set_ssh_password_authentication pct_exec debian_container ''no'' (single longer_value)) =
     Inr (False, ''Already set to the desired status.'')
   \<and> sshd_config (single longer_value (vmid debian_container)) = Some ''PasswordAuthentication nope\<newline>''
   \<and> ''PasswordAuthentication no'' \<notin> set (text_lines ''PasswordAuthentication nope\<newline>'')"
  by (simp add: set_ssh_password_authentication_def pct_exec_def single_def longer_value_def
      debian_container_def grep_probe_def text_lines_def unlines_def already_set_def
      splitlines_def is_linebreak_def directive_def)

text \<open>
  C5, amended: for a configuration file that exists (with LF as its only line boundary),
  the function reports "already set" exactly when some line of the file starts with
  \<open>PasswordAuthentication <desired>\<close>; a line that extends the directive counts.
\<close>

theorem password_auth_satisfied_iff_prefix:
  assumes "sshd_config (host (vmid c)) = Some content" and "plain_text content"
  shows "fst (set_ssh_password_authentication pct_exec c status host) =
           Inr (False, ''Already set to the desired status.'')
         \<longleftrightarrow> list_ex (\<lambda>line. startswith line (directive status)) (text_lines content)"
proof -
  let ?found = "filter (contains ''PasswordAuthentication'') (text_lines content)"
  have ex: "list_ex (\<lambda>line. startswith line (directive status)) ?found
            \<longleftrightarrow> list_ex (\<lambda>line. startswith line (directive status)) (text_lines content)"
    using directive_contains by (auto simp: list_ex_iff)
  show ?thesis
  proof (cases "?found = []")
    case True
    then have "fst (set_ssh_password_authentication pct_exec c status host) =
                 Inr (True, ''SSH not installed or not configured.'')"
      using assms(1)
      by (simp add: set_ssh_password_authentication_def pct_exec_def grep_probe_def Let_def)
    moreover have "\<not> list_ex (\<lambda>line. startswith line (directive status)) (text_lines content)"
      using ex True by simp
    ultimately show ?thesis by simp
  next
    case False
    have out: "already_set status (universal_newlines (unlines ?found))
                 \<longleftrightarrow> list_ex (\<lambda>line. startswith line (directive status)) ?found"
      using grep_output_lines [OF assms(2)] by (simp add: already_set_def)
    show ?thesis
      using assms(1) False out ex
      by (auto simp: set_ssh_password_authentication_def pct_exec_def grep_probe_def Let_def
          split: prod.splits sum.splits)
  qed
qed

theorem password_auth_satisfied_iff_prefix_witness:
  "sshd_config (single longer_value (vmid debian_container)) = Some ''PasswordAuthentication nope\<newline>''
   \<and> plain_text ''PasswordAuthentication nope\<newline>''
   \<and> list_ex (\<lambda>line. startswith line (directive ''no'')) (text_lines ''PasswordAuthentication nope\<newline>'')
   \<and> fst (set_ssh_password_authentication pct_exec debian_container ''no'' (single longer_value)) =
       Inr (False, ''Already set to the desired status.'')"
proof -
  have a: "sshd_config (single longer_value (vmid debian_container)) = Some ''PasswordAuthentication nope\<newline>''"
    by (simp add: single_def longer_value_def)
  have b: "plain_text ''PasswordAuthentication nope\<newline>''"
    by (simp add: plain_text_def exotic_break_def)
  have c: "list_ex (\<lambda>line. startswith line (directive ''no'')) (text_lines ''PasswordAuthentication nope\<newline>'')"
    by (simp add: text_lines_def directive_def)
  show ?thesis
    using a b c
      password_auth_satisfied_iff_prefix [where host = "single longer_value" and c = debian_container
        and content = "''PasswordAuthentication nope\<newline>''" and status = "''no''"]
    by simp
qed

subsection \<open>The rewrite of the directive\<close>


lemma sed_line_Nil: "sed_line status [] = []"
  by (simp add: sed_line_def sed_matches_def)












subsection \<open>The choice of the install command\<close>

lemma os_release_dict_lookup:
  "os_release_dict items d = Inr d' \<Longrightarrow> d' key = Some v \<Longrightarrow>
   d key = Some v \<or> list_ex (\<lambda>item. case item of k # value # _ \<Rightarrow> lower k = key \<and> v = filter (\<lambda>c. c \<noteq> CHR 0x22) value | _ \<Rightarrow> False) items"
proof (induction items arbitrary: d)
  case Nil
  then show ?case by simp
next
  case (Cons item items)
  then obtain k val rest where item: "item = k # val # rest"
    by (auto split: list.splits)
  let ?d = "d(lower k \<mapsto> filter (\<lambda>c. c \<noteq> CHR 0x22) val)"
  from Cons.prems item have "os_release_dict items ?d = Inr d'" by simp
  from Cons.IH [OF this Cons.prems(2)] show ?case
    using item by (auto split: if_splits)
qed

lemma get_linux_version_id:
  assumes "fst (get_linux_version run v w) = Inr d" and "d ''id'' = Some i"
  shows "list_ex (id_line i) (splitlines (stdout (fst (run (CatOsRelease v) w))))"
proof -
  from assms(1) have "os_release_dict (map (split_on CHR ''='') (splitlines (stdout (fst (run (CatOsRelease v) w))))) Map.empty = Inr d"
    by (simp add: get_linux_version_def parse_os_release_def split: prod.splits)
  from os_release_dict_lookup [OF this assms(2)] show ?thesis
    by (simp add: list_ex_iff id_line_def)
qed

lemma traced_apply: "traced run cmd (w, log) = (fst (run cmd w), (snd (run cmd w), log @ [cmd]))"
  by (simp add: traced_def split: prod.splits)

lemma install_openssh_not_installed:
  assumes "version_id c = Inr i" and "returncode (fst (run (CommandVSshd (vmid c)) w)) \<noteq> 0"
  shows "snd (snd (install_openssh (traced run) c (w, []))) =
           CommandVSshd (vmid c) # (case install_command (vmid c) i of None \<Rightarrow> [] | Some cmd \<Rightarrow> [cmd])"
    and "install_command (vmid c) i = None \<Longrightarrow>
           fst (install_openssh (traced run) c (w, [])) = Inr (False, ''Unsupported Linux distribution, '' @ i @ ''.'')"
  using assms
  by (simp_all add: install_openssh_def traced_apply case_prod_beta split: option.splits)

text \<open>
  C6, as the claim states it, fails twice. The case of the \<open>id\<close> value is not
  normalised (only the keys are lower-cased): \<open>ID=Alpine\<close> ends in "Unsupported Linux
  distribution, Alpine.". And an unsupported value does not always end so: for \<open>ID=arch\<close>
  with \<open>sshd\<close> on the path and the service check failing, the enable and start command
  \<open>systemctl enable ssh && systemctl start ssh\<close> is run and the result is
  "SSH service started and enabled.".
\<close>

theorem install_openssh_dispatch_fails:
  "fst (install_openssh (traced pct_exec)
          (with_version (fst (get_linux_version pct_exec ''101'' (single capital_alpine))))
          (single capital_alpine, []))
     = Inr (False, ''Unsupported Linux distribution, Alpine.'')
   \<and> fst (install_openssh (traced pct_exec)
          (with_version (fst (get_linux_version pct_exec ''101'' (single arch_with_sshd))))
          (single arch_with_sshd, []))
     = Inr (True, ''SSH service started and enabled.'')
   \<and> snd (snd (install_openssh (traced pct_exec)
          (with_version (fst (get_linux_version pct_exec ''101'' (single arch_with_sshd))))
          (single arch_with_sshd, [])))
     = [CommandVSshd ''101'', ServiceCheckSystemd ''101'', ConfigureSystemd ''101'']"
proof -
  have v1: "fst (get_linux_version pct_exec ''101'' (single capital_alpine)) =
              Inr [''name'' \<mapsto> ''Alpine Linux'', ''id'' \<mapsto> ''Alpine'']"
    by (simp add: get_linux_version_def pct_exec_def single_def capital_alpine_def
        parse_os_release_def splitlines_def is_linebreak_def lower_def lower_char_def)
  have v2: "fst (get_linux_version pct_exec ''101'' (single arch_with_sshd)) =
              Inr [''name'' \<mapsto> ''Arch Linux'', ''id'' \<mapsto> ''arch'']"
    by (simp add: get_linux_version_def pct_exec_def single_def arch_with_sshd_def
        parse_os_release_def splitlines_def is_linebreak_def lower_def lower_char_def)
  show ?thesis
    unfolding v1 v2
    by (simp add: install_openssh_def traced_apply pct_exec_def single_def capital_alpine_def
        arch_with_sshd_def with_version_def version_id_def install_command_def no_services_def
        case_prod_beta)
qed

text \<open>
  C6, amended: the \<open>id\<close> of a container is the value of an os-release line whose key is
  \<open>id\<close> in any case, without its double quotes and in its own case. When the probe for
  \<open>sshd\<close> fails, \<open>install_openssh\<close> compares that value as it is: \<open>alpine\<close> runs the apk
  command, \<open>debian\<close> and \<open>ubuntu\<close> the apt-get command, \<open>centos\<close>, \<open>rhel\<close> and \<open>fedora\<close>
  the yum command, and any other value gives "Unsupported Linux distribution" with no
  command run after the probe.
\<close>

theorem install_openssh_dispatch:
  "(fst (get_linux_version run v w0) = Inr d \<and> d ''id'' = Some i \<longrightarrow>
      list_ex (id_line i) (splitlines (stdout (fst (run (CatOsRelease v) w0)))))
   \<and> (version c = Some d \<and> d ''id'' = Some i \<and> returncode (fst (run (CommandVSshd (vmid c)) w)) \<noteq> 0 \<longrightarrow>
        (i = ''alpine'' \<longrightarrow>
           snd (snd (install_openssh (traced run) c (w, []))) = [CommandVSshd (vmid c), InstallApk (vmid c)])
      \<and> (i \<in> set [''debian'', ''ubuntu''] \<longrightarrow>
           snd (snd (install_openssh (traced run) c (w, []))) = [CommandVSshd (vmid c), InstallApt (vmid c)])
      \<and> (i \<in> set [''centos'', ''rhel'', ''fedora''] \<longrightarrow>
           snd (snd (install_openssh (traced run) c (w, []))) = [CommandVSshd (vmid c), InstallYum (vmid c)])
      \<and> (i \<notin> set [''alpine'', ''debian'', ''ubuntu'', ''centos'', ''rhel'', ''fedora''] \<longrightarrow>
           snd (snd (install_openssh (traced run) c (w, []))) = [CommandVSshd (vmid c)]
         \<and> fst (install_openssh (traced run) c (w, [])) =
             Inr (False, ''Unsupported Linux distribution, '' @ i @ ''.'')))"
proof -
  have first: "list_ex (id_line i) (splitlines (stdout (fst (run (CatOsRelease v) w0))))"
    if "fst (get_linux_version run v w0) = Inr d \<and> d ''id'' = Some i"
  proof (rule get_linux_version_id)
    show "fst (get_linux_version run v w0) = Inr d" using that by (rule conjunct1)
    show "d ''id'' = Some i" using that by (rule conjunct2)
  qed
  have second:
    "(i = ''alpine'' \<longrightarrow>
           snd (snd (install_openssh (traced run) c (w, []))) = [CommandVSshd (vmid c), InstallApk (vmid c)])
      \<and> (i \<in> set [''debian'', ''ubuntu''] \<longrightarrow>
           snd (snd (install_openssh (traced run) c (w, []))) = [CommandVSshd (vmid c), InstallApt (vmid c)])
      \<and> (i \<in> set [''centos'', ''rhel'', ''fedora''] \<longrightarrow>
           snd (snd (install_openssh (traced run) c (w, []))) = [CommandVSshd (vmid c), InstallYum (vmid c)])
      \<and> (i \<notin> set [''alpine'', ''debian'', ''ubuntu'', ''centos'', ''rhel'', ''fedora''] \<longrightarrow>
           snd (snd (install_openssh (traced run) c (w, []))) = [CommandVSshd (vmid c)]
         \<and> fst (install_openssh (traced run) c (w, [])) =
             Inr (False, ''Unsupported Linux distribution, '' @ i @ ''.''))"
    if a: "version c = Some d \<and> d ''id'' = Some i \<and> returncode (fst (run (CommandVSshd (vmid c)) w)) \<noteq> 0"
  proof -
    from a have v: "version_id c = Inr i" by (simp add: version_id_def)
    from a have nz: "returncode (fst (run (CommandVSshd (vmid c)) w)) \<noteq> 0" by simp
    note t = install_openssh_not_installed [where run = run and w = w and c = c and i = i, OF v nz]
    have apk: "i = ''alpine'' \<Longrightarrow> install_command (vmid c) i = Some (InstallApk (vmid c))"
      by (simp add: install_command_def)
    have apt: "i \<in> set [''debian'', ''ubuntu''] \<Longrightarrow> install_command (vmid c) i = Some (InstallApt (vmid c))"
      by (auto simp: install_command_def)
    have yum: "i \<in> set [''centos'', ''rhel'', ''fedora''] \<Longrightarrow> install_command (vmid c) i = Some (InstallYum (vmid c))"
      by (auto simp: install_command_def)
    have none: "i \<notin> set [''alpine'', ''debian'', ''ubuntu'', ''centos'', ''rhel'', ''fedora''] \<Longrightarrow>
        install_command (vmid c) i = None"
      by (simp add: install_command_def)
    show ?thesis
    proof (intro conjI impI)
      assume "i = ''alpine''"
      from apk [OF this] show "snd (snd (install_openssh (traced run) c (w, []))) = [CommandVSshd (vmid c), InstallApk (vmid c)]"
        by (simp only: t(1) option.case)
    next
      assume "i \<in> set [''debian'', ''ubuntu'']"
      from apt [OF this] show "snd (snd (install_openssh (traced run) c (w, []))) = [CommandVSshd (vmid c), InstallApt (vmid c)]"
        by (simp only: t(1) option.case)
    next
      assume "i \<in> set [''centos'', ''rhel'', ''fedora'']"
      from yum [OF this] show "snd (snd (install_openssh (traced run) c (w, []))) = [CommandVSshd (vmid c), InstallYum (vmid c)]"
        by (simp only: t(1) option.case)
    next
      assume n: "i \<notin> set [''alpine'', ''debian'', ''ubuntu'', ''centos'', ''rhel'', ''fedora'']"
      from none [OF n] show "snd (snd (install_openssh (traced run) c (w, []))) = [CommandVSshd (vmid c)]"
        by (simp only: t(1) option.case)
      from none [OF n] show "fst (install_openssh (traced run) c (w, [])) =
             Inr (False, ''Unsupported Linux distribution, '' @ i @ ''.'')"
        by (rule t(2))
    qed
  qed
  show ?thesis
  proof (rule conjI)
    show "fst (get_linux_version run v w0) = Inr d \<and> d ''id'' = Some i \<longrightarrow>
      list_ex (id_line i) (splitlines (stdout (fst (run (CatOsRelease v) w0))))"
      by (rule impI) (rule first)
  qed (rule impI, rule second)
qed

theorem install_openssh_dispatch_witness:
  "fst (get_linux_version pct_exec ''101'' (single alpine_release)) =
       Inr [''name'' \<mapsto> ''Alpine Linux'', ''id'' \<mapsto> ''alpine'']
   \<and> list_ex (id_line ''alpine'') (splitlines (stdout (fst (pct_exec (CatOsRelease ''101'') (single alpine_release)))))
   \<and> returncode (fst (pct_exec (CommandVSshd ''101'') (single alpine_release))) \<noteq> 0
   \<and> snd (snd (install_openssh (traced pct_exec) (with_id ''alpine'') (single alpine_release, []))) =
       [CommandVSshd ''101'', InstallApk ''101'']
   \<and> snd (snd (install_openssh (traced pct_exec) (with_id ''ubuntu'') (single alpine_release, []))) =
       [CommandVSshd ''101'', InstallApt ''101'']
   \<and> snd (snd (install_openssh (traced pct_exec) (with_id ''fedora'') (single alpine_release, []))) =
       [CommandVSshd ''101'', InstallYum ''101'']
   \<and> snd (snd (install_openssh (traced pct_exec) (with_id ''arch'') (single alpine_release, []))) =
       [CommandVSshd ''101'']
   \<and> fst (install_openssh (traced pct_exec) (with_id ''arch'') (single alpine_release, [])) =
       Inr (False, ''Unsupported Linux distribution, arch.'')"
proof -
  have v: "fst (get_linux_version pct_exec ''101'' (single alpine_release)) =
       Inr [''name'' \<mapsto> ''Alpine Linux'', ''id'' \<mapsto> ''alpine'']"
    by (simp add: get_linux_version_def pct_exec_def single_def alpine_release_def
        parse_os_release_def splitlines_def is_linebreak_def lower_def lower_char_def)
  have i: "[''name'' \<mapsto> ''Alpine Linux'', ''id'' \<mapsto> ''alpine''] ''id'' = Some ''alpine''"
    by simp
  have p: "returncode (fst (pct_exec (CommandVSshd (vmid (with_id j))) (single alpine_release))) \<noteq> 0" for j
    by (simp add: pct_exec_def single_def alpine_release_def no_services_def with_id_def)
  have c: "version (with_id j) = Some [''id'' \<mapsto> j] \<and> [''id'' \<mapsto> j] ''id'' = Some j" for j
    by (simp add: with_id_def)
  have m: "vmid (with_id j) = ''101''" for j
    by (simp add: with_id_def)
  note d = install_openssh_dispatch [where run = pct_exec and v = "''101''" and ?w0.0 = "single alpine_release"
        and w = "single alpine_release"]
  show ?thesis
    using v i p [of "''alpine''"] m [of "''alpine''"]
      d [where d = "[''name'' \<mapsto> ''Alpine Linux'', ''id'' \<mapsto> ''alpine'']" and i = "''alpine''" and c = "with_id ''alpine''"]
      d [where d = "[''id'' \<mapsto> ''alpine'']" and i = "''alpine''" and c = "with_id ''alpine''"]
      d [where d = "[''id'' \<mapsto> ''ubuntu'']" and i = "''ubuntu''" and c = "with_id ''ubuntu''"]
      d [where d = "[''id'' \<mapsto> ''fedora'']" and i = "''fedora''" and c = "with_id ''fedora''"]
      d [where d = "[''id'' \<mapsto> ''arch'']" and i = "''arch''" and c = "with_id ''arch''"]
      c [of "''alpine''"] c [of "''ubuntu''"] c [of "''fedora''"] c [of "''arch''"]
      p [of "''ubuntu''"] p [of "''fedora''"] p [of "''arch''"]
      m [of "''ubuntu''"] m [of "''fedora''"] m [of "''arch''"]
    by simp
qed

subsection \<open>The key script\<close>

text \<open>
  In merge mode the script never writes: what the loop appends stays in the subshell, the
  comparison finds \<open>UPDATED_KEYS\<close> equal to \<open>EXISTING_KEYS\<close>, and the script exits with 0.
  In either mode its exit status is 0 or 1.
\<close>

lemma keys_script_merge_noop:
  "fst (keys_script keys False s) = 0 \<and> authorized_keys (snd (keys_script keys False s)) = authorized_keys s"
  by (simp add: keys_script_def in_subshell_def mkdir_p_def Let_def)

lemma keys_script_exit_status: "fst (keys_script keys remove_existing s) \<in> {0, 1}"
  by (simp add: keys_script_def Let_def)

text \<open>
  What the function returns is decided by the exit status alone: 0 gives the flag False,
  1 and every other status give the flag True, and the three messages differ.
\<close>

lemma add_ssh_public_keys_by_exit_status:
  assumes "files key_file = Some content" and "strip content \<noteq> []"
    and "run (KeysScript (vmid c) (strip content) remove_existing) w = (result, w1)"
  shows "fst (add_ssh_public_keys run files c key_file remove_existing w) =
           (if returncode result = 0 then (False, ''No changes were made to container.'')
            else if returncode result = 1 then (True, ''SSH keys successfully added to container.'')
            else (True, ''Failed to add SSH keys to container: '' @ strip (stderr result)))"
  using assms by (simp add: add_ssh_public_keys_def Let_def)

text \<open>
  C1 at the claim's own example, existing keys A and B, canonical keys B and C. In merge
  mode the function reports "No changes were made" and the file still holds A and B: the
  key C, which the loop appends in its subshell (third line), never reaches the file. In
  replace mode the file becomes B and C, as the claim says.
\<close>

theorem add_ssh_public_keys_merge_appends_nothing:
  "fst (add_ssh_public_keys pct_exec keys_B_C debian_container ''keys.pub'' False (single keys_A_B))
     = (False, ''No changes were made to container.'')
   \<and> authorized_keys (snd (add_ssh_public_keys pct_exec keys_B_C debian_container ''keys.pub'' False
                             (single keys_A_B)) ''101'')
     = Some ''A\<newline>B\<newline>''
   \<and> merge_loop ''A\<newline>B'' (echo_lines ''B\<newline>C'') ''A\<newline>B'' = ''A\<newline>B\<newline>C''
   \<and> fst (add_ssh_public_keys pct_exec keys_B_C debian_container ''keys.pub'' True (single keys_A_B))
     = (True, ''SSH keys successfully added to container.'')
   \<and> authorized_keys (snd (add_ssh_public_keys pct_exec keys_B_C debian_container ''keys.pub'' True
                             (single keys_A_B)) ''101'')
     = Some ''B\<newline>C\<newline>''"
  by (simp add: add_ssh_public_keys_def keys_B_C_def strip_def isspace_def pct_exec_def single_def
      keys_A_B_def debian_container_def keys_script_def mkdir_p_def command_substitution_def
      in_subshell_def write_authorized_keys_def echo_lines_def text_lines_def Let_def)

text \<open>
  C3 on a container whose file system takes no writes, in replace mode: the directory is
  not created and the file is not written, yet the script exits with 1 and the function
  returns the very value of a successful change (third line, on a writable container).
\<close>

theorem add_ssh_public_keys_write_failure_reported_as_change:
  "fst (add_ssh_public_keys pct_exec keys_B_C debian_container ''keys.pub'' True (single read_only_debian))
     = (True, ''SSH keys successfully added to container.'')
   \<and> authorized_keys (snd (add_ssh_public_keys pct_exec keys_B_C debian_container ''keys.pub'' True
                             (single read_only_debian)) ''101'')
     = None
   \<and> fst (add_ssh_public_keys pct_exec keys_B_C debian_container ''keys.pub'' True (single keys_A_B))
     = (True, ''SSH keys successfully added to container.'')"
  by (simp add: add_ssh_public_keys_def keys_B_C_def strip_def isspace_def pct_exec_def single_def
      keys_A_B_def read_only_debian_def debian_container_def keys_script_def mkdir_p_def
      command_substitution_def in_subshell_def write_authorized_keys_def Let_def)


subsection \<open>Calling a reconciler twice\<close>

text \<open>
  The key reconciler in replace mode settles: on a container that takes writes, a second
  call with the same key file reports "No changes were made".
\<close>

lemma dropWhile_dropWhile: "(\<And>x. P x \<Longrightarrow> Q x) \<Longrightarrow> dropWhile P (dropWhile Q xs) = dropWhile Q xs"
proof (cases "dropWhile Q xs")
  case Nil
  show ?thesis unfolding Nil by simp
next
  case (Cons y ys)
  assume pq: "\<And>x. P x \<Longrightarrow> Q x"
  have "\<not> Q y" using Cons hd_dropWhile [of Q xs] by auto
  then have "\<not> P y" using pq by blast
  then show ?thesis using Cons by simp
qed

lemma command_substitution_strip: "command_substitution (strip content @ [CHR 0x0A]) = strip content"
proof -
  have "dropWhile (\<lambda>c. c = CHR 0x0A) (dropWhile isspace (rev (dropWhile isspace content)))
          = dropWhile isspace (rev (dropWhile isspace content))"
    by (rule dropWhile_dropWhile) (simp add: isspace_def)
  then show ?thesis by (simp add: command_substitution_def strip_def)
qed

lemma keys_script_replace_twice:
  assumes "writable s"
  shows "fst (keys_script (strip content) True (snd (keys_script (strip content) True s))) = 0"
  using assms command_substitution_strip [of content]
  by (auto simp: keys_script_def mkdir_p_def write_authorized_keys_def Let_def split: option.splits)

lemma add_ssh_public_keys_replace_twice:
  assumes "writable (host (vmid c))" and "files key_file = Some content" and "strip content \<noteq> []"
  shows "fst (add_ssh_public_keys pct_exec files c key_file True
                (snd (add_ssh_public_keys pct_exec files c key_file True host)))
           = (False, ''No changes were made to container.'')"
proof -
  let ?s1 = "snd (keys_script (strip content) True (host (vmid c)))"
  have w1: "snd (add_ssh_public_keys pct_exec files c key_file True host) = host(vmid c := ?s1)"
    using assms(2,3) by (simp add: add_ssh_public_keys_def pct_exec_def case_prod_beta Let_def)
  have "fst (keys_script (strip content) True ?s1) = 0"
    using keys_script_replace_twice [OF assms(1)] .
  then show ?thesis
    using assms(2,3) by (simp add: w1 add_ssh_public_keys_def pct_exec_def case_prod_beta Let_def)
qed

text \<open>
  C2 on a container without \<open>/etc/ssh/sshd_config\<close>: the first call and the call after it
  both return True ("SSH not installed or not configured."). The same holds for a file
  in which \<open>grep\<close> finds the word but \<open>sed\<close> matches no line (\<open># PasswordAuthentication yes\<close>):
  every call returns True ("PasswordAuthentication set to no").
\<close>

theorem set_ssh_password_authentication_second_call_changed:
  "fst (set_ssh_password_authentication pct_exec debian_container ''no'' (single no_sshd_config))
     = Inr (True, ''SSH not installed or not configured.'')
   \<and> fst (set_ssh_password_authentication pct_exec debian_container ''no''
            (snd (set_ssh_password_authentication pct_exec debian_container ''no'' (single no_sshd_config))))
     = Inr (True, ''SSH not installed or not configured.'')
   \<and> fst (set_ssh_password_authentication pct_exec debian_container ''no'' (single spaced_comment))
     = Inr (True, ''PasswordAuthentication set to no'')
   \<and> fst (set_ssh_password_authentication pct_exec debian_container ''no''
            (snd (set_ssh_password_authentication pct_exec debian_container ''no'' (single spaced_comment))))
     = Inr (True, ''PasswordAuthentication set to no'')"
  by (simp add: set_ssh_password_authentication_def pct_exec_def single_def no_sshd_config_def
      spaced_comment_def debian_container_def grep_probe_def text_lines_def unlines_def
      already_set_def splitlines_def is_linebreak_def directive_def sed_in_place_def
      sed_rewrite_def sed_line_def sed_matches_def regex_space_def version_id_def no_services_def)

subsection \<open>The fleet run\<close>

lemma aimed_Nil: "aimed ids []"
  by (simp add: aimed_def)

lemma aimed_append: "aimed ids (xs @ ys) \<longleftrightarrow> aimed ids xs \<and> aimed ids ys"
  by (auto simp: aimed_def)

lemma aimed_Cons: "aimed ids new \<Longrightarrow> aimed (x # ids) new"
  by (fastforce simp: aimed_def)

lemma aimed_head: "\<forall>cmd\<in>set new. target cmd = v \<Longrightarrow> new = [] \<or> r \<Longrightarrow> aimed ((name, v, r) # ids) new"
  by (cases "new = []") (auto simp: aimed_def)

lemma for_containers_traced:
  assumes ok: "body_ok first b"
  shows "\<exists>new. snd (snd (for_containers b n i cs (w, log))) = log @ new
           \<and> aimed (map ident cs) new
           \<and> (\<forall>cs1 bars. fst (for_containers b n i cs (w, log)) = Inr (cs1, bars) \<longrightarrow>
                 list_all2 entry_of (map ident cs) bars
               \<and> map ident cs1 = map ident cs
               \<and> reached first (map ident cs) new)"
proof (induction cs arbitrary: i w log)
  case Nil
  show ?case by (simp add: aimed_Nil reached_def)
next
  case (Cons item cs)
  obtain name data where item: "item = (name, data)" by (cases item)
  obtain res w1 log1 where b: "b name data (w, log) = (res, (w1, log1))"
    by (metis prod.exhaust)
  from ok have nr: "\<not> running data \<Longrightarrow> b name data (w, log) = (Inr (data, Some (not_running name data)), (w, log))"
    and r1: "running data \<Longrightarrow> \<exists>new. snd (snd (b name data (w, log))) = log @ new
                \<and> (\<forall>cmd\<in>set new. target cmd = vmid data) \<and> first (vmid data) \<subseteq> set new"
    and r2: "\<And>data1 msg. running data \<Longrightarrow> fst (b name data (w, log)) = Inr (data1, msg) \<Longrightarrow>
                vmid data1 = vmid data \<and> running data1 = running data"
    unfolding body_ok_def by blast+
  have step: "\<exists>new1. log1 = log @ new1 \<and> (\<forall>cmd\<in>set new1. target cmd = vmid data)
                \<and> (new1 = [] \<or> running data) \<and> (running data \<longrightarrow> first (vmid data) \<subseteq> set new1)"
  proof (cases "running data")
    case True
    then show ?thesis using r1 b by auto
  next
    case False
    then show ?thesis using nr b by simp
  qed
  then obtain new1 where new1: "log1 = log @ new1" "\<forall>cmd\<in>set new1. target cmd = vmid data"
      "new1 = [] \<or> running data" "running data \<longrightarrow> first (vmid data) \<subseteq> set new1"
    by blast
  have a1: "aimed (map ident (item # cs)) new1"
    using aimed_head [OF new1(2) new1(3)] by (simp add: ident_def item)
  show ?case
  proof (cases res)
    case (Inl e)
    then have "for_containers b n i (item # cs) (w, log) = (Inl e, (w1, log1))"
      using b item by simp
    then show ?thesis using new1(1) a1 by auto
  next
    case (Inr p)
    obtain data1 msg where p: "p = (data1, msg)" by (cases p)
    have same: "vmid data1 = vmid data \<and> running data1 = running data"
    proof (cases "running data")
      case True
      then show ?thesis using r2 [of data1 msg] b Inr p by simp
    next
      case False
      then show ?thesis using nr b Inr p by simp
    qed
    have msg: "\<not> running data \<Longrightarrow> msg = Some (not_running name data)"
      using nr b Inr p by simp
    from Cons.IH [of "Suc i" w1 log1]
    obtain new2 where new2: "snd (snd (for_containers b n (Suc i) cs (w1, log1))) = log1 @ new2"
        "aimed (map ident cs) new2"
        "\<And>cs1 bars. fst (for_containers b n (Suc i) cs (w1, log1)) = Inr (cs1, bars) \<Longrightarrow>
                 list_all2 entry_of (map ident cs) bars
               \<and> map ident cs1 = map ident cs
               \<and> reached first (map ident cs) new2"
      by blast
    obtain res2 w2 log2 where rest: "for_containers b n (Suc i) cs (w1, log1) = (res2, (w2, log2))"
      by (metis prod.exhaust)
    have log2: "log2 = log @ new1 @ new2" using new2(1) rest new1(1) by simp
    have a2: "aimed (map ident (item # cs)) (new1 @ new2)"
      using a1 aimed_Cons [OF new2(2), of "ident item"] by (simp add: aimed_append)
    show ?thesis
    proof (cases res2)
      case (Inl e)
      then have "for_containers b n i (item # cs) (w, log) = (Inl e, (w2, log2))"
        using b item Inr p rest by simp
      then show ?thesis using log2 a2 by auto
    next
      case inr: (Inr q)
      obtain cs1 bars where q: "q = (cs1, bars)" by (cases q)
      have whole: "for_containers b n i (item # cs) (w, log) =
          (Inr ((name, data1) # cs1,
                \<lparr>bar_iteration = Suc i, bar_total = n, bar_message = msg, bar_suffix = name\<rparr> # bars),
           (w2, log2))"
        using b item Inr p rest inr q by simp
      from new2(3) [of cs1 bars] rest inr q
      have ih: "list_all2 entry_of (map ident cs) bars" "map ident cs1 = map ident cs"
          "reached first (map ident cs) new2"
        by simp_all
      have e: "entry_of (ident item) \<lparr>bar_iteration = Suc i, bar_total = n, bar_message = msg, bar_suffix = name\<rparr>"
        using msg by (simp add: entry_of_def ident_def item not_running_def)
      have i1: "ident (name, data1) = ident item"
        using same by (simp add: ident_def item)
      have f: "reached first (map ident (item # cs)) (new1 @ new2)"
        using ih(3) new1(4) item by (auto simp: reached_def ident_def)
      show ?thesis
        using whole log2 a2 e ih(1,2) i1 f by auto
    qed
  qed
qed


lemma version_body_ok: "body_ok (\<lambda>v. {CatOsRelease v}) (version_body (traced run))"
  by (auto simp: body_ok_def version_body_def get_linux_version_def traced_apply case_prod_beta
      split: sum.splits)

lemma reconcile_body_ok:
  assumes "\<And>data w log. \<exists>new. snd (snd (reconciler data (w, log))) = log @ new
              \<and> (\<forall>cmd\<in>set new. target cmd = vmid data) \<and> first (vmid data) \<subseteq> set new"
  shows "body_ok first (reconcile_body reconciler)"
  unfolding body_ok_def
proof (intro allI conjI impI)
  fix name data and w :: 'a and log
  show "reconcile_body reconciler name data (w, log) = (Inr (data, Some (not_running name data)), w, log)"
    if "\<not> running data"
    using that by (simp add: reconcile_body_def)
  show "\<exists>new. snd (snd (reconcile_body reconciler name data (w, log))) = log @ new
          \<and> (\<forall>cmd\<in>set new. target cmd = vmid data) \<and> first (vmid data) \<subseteq> set new"
    if "running data"
    using that assms [of data w log]
    by (auto simp: reconcile_body_def split: prod.splits sum.splits)
  fix data1 msg
  assume "running data" and "fst (reconcile_body reconciler name data (w, log)) = Inr (data1, msg)"
  then have "data1 = data"
    by (auto simp: reconcile_body_def split: prod.splits sum.splits)
  then show "vmid data1 = vmid data" and "running data1 = running data" by simp_all
qed

lemma install_openssh_trace:
  "\<exists>new. snd (snd (install_openssh (traced run) data (w, log))) = log @ new
     \<and> (\<forall>cmd\<in>set new. target cmd = vmid data) \<and> {CommandVSshd (vmid data)} \<subseteq> set new"
  by (simp add: install_openssh_def traced_apply case_prod_beta install_command_def
      split: sum.splits option.splits)

lemma set_ssh_password_authentication_trace:
  "\<exists>new. snd (snd (set_ssh_password_authentication (traced run) data status (w, log))) = log @ new
     \<and> (\<forall>cmd\<in>set new. target cmd = vmid data) \<and> {GrepPasswordAuthentication (vmid data)} \<subseteq> set new"
  by (simp add: set_ssh_password_authentication_def traced_apply case_prod_beta
      split: sum.splits option.splits)

lemma add_ssh_public_keys_trace:
  "\<exists>new. snd (snd (case add_ssh_public_keys (traced run) files data ''keys.pub'' True (w, log) of
                      (r, w') \<Rightarrow> (Inr r :: py_error + bool \<times> string, w'))) = log @ new
     \<and> (\<forall>cmd\<in>set new. target cmd = vmid data) \<and> keys_command files (vmid data) \<subseteq> set new"
  by (simp add: add_ssh_public_keys_def traced_apply case_prod_beta keys_command_def Let_def
      split: option.splits)

lemma reported_entry_of: "list_all2 reported cs bars \<longleftrightarrow> list_all2 entry_of (map ident cs) bars"
proof -
  have "reported = (\<lambda>item bar. entry_of (ident item) bar)"
    by (simp add: fun_eq_iff reported_def entry_of_def ident_def not_running_def)
  then show ?thesis by (simp add: list_all2_map1)
qed

lemma aimed_ident:
  "aimed (map ident cs) new \<longleftrightarrow>
     (\<forall>cmd\<in>set new. \<exists>item\<in>set cs. running (snd item) \<and> target cmd = vmid (snd item))"
  by (auto simp: aimed_def ident_def)


lemma reached_ident:
  "reached first (map ident cs) new \<longleftrightarrow>
     (\<forall>item\<in>set cs. running (snd item) \<longrightarrow> first (vmid (snd item)) \<subseteq> set new)"
  by (auto simp: reached_def ident_def)

lemma reached_mono: "reached first ids new \<Longrightarrow> set new \<subseteq> set log \<Longrightarrow> reached first ids log"
  by (fastforce simp: reached_def)

lemma stage:
  assumes "body_ok first b" and "map ident cs = ids"
  obtains new where "snd (snd (for_containers b n 0 cs (w, log))) = log @ new"
    and "aimed ids new"
    and "\<And>cs1 bars. fst (for_containers b n 0 cs (w, log)) = Inr (cs1, bars) \<Longrightarrow>
           list_all2 entry_of ids bars \<and> map ident cs1 = ids \<and> reached first ids new"
  using for_containers_traced [OF assms(1), of n 0 cs w log] assms(2) by blast


lemma main_stages:
  assumes "fst (main run files containers w) = Inr r"
  obtains cs1 out1 w1 cs2 out2 w2 cs3 out3 w3 where
    "for_containers (version_body run) (length containers) 0 containers w = (Inr (cs1, out1), w1)"
    "for_containers (reconcile_body (install_openssh run)) (length containers) 0 cs1 w1 = (Inr (cs2, out2), w2)"
    "for_containers (reconcile_body (\<lambda>c. set_ssh_password_authentication run c ''no''))
        (length containers) 0 cs2 w2 = (Inr (cs3, out3), w3)"
    "os_info r = out1" "package_service r = out2" "password_auth r = out3"
    "files ''keys.pub'' = None \<longrightarrow> keys_stage r = None \<and> snd (main run files containers w) = w3"
    "files ''keys.pub'' \<noteq> None \<longrightarrow>
       (\<exists>cs4 out4 w4. for_containers (keys_body run files) (length containers) 0 cs3 w3 = (Inr (cs4, out4), w4)
          \<and> keys_stage r = Some out4 \<and> snd (main run files containers w) = w4)"
proof -
  let ?n = "length containers"
  obtain res1 w1 where s1: "for_containers (version_body run) ?n 0 containers w = (res1, w1)"
    by (cases "for_containers (version_body run) ?n 0 containers w")
  show ?thesis
  proof (cases res1)
    case (Inl e)
    then show ?thesis using assms s1 by (simp add: main_def)
  next
    case i1: (Inr p1)
    obtain cs1 out1 where p1: "p1 = (cs1, out1)" by (cases p1)
    obtain res2 w2 where s2: "for_containers (reconcile_body (install_openssh run)) ?n 0 cs1 w1 = (res2, w2)"
      by (cases "for_containers (reconcile_body (install_openssh run)) ?n 0 cs1 w1")
    show ?thesis
    proof (cases res2)
      case (Inl e)
      then show ?thesis using assms s1 i1 p1 s2 by (simp add: main_def)
    next
      case i2: (Inr p2)
      obtain cs2 out2 where p2: "p2 = (cs2, out2)" by (cases p2)
      obtain res3 w3 where s3: "for_containers (reconcile_body (\<lambda>c. set_ssh_password_authentication run c ''no''))
          ?n 0 cs2 w2 = (res3, w3)"
        by (cases "for_containers (reconcile_body (\<lambda>c. set_ssh_password_authentication run c ''no'')) ?n 0 cs2 w2")
      show ?thesis
      proof (cases res3)
        case (Inl e)
        then show ?thesis using assms s1 i1 p1 s2 i2 p2 s3 by (simp add: main_def)
      next
        case i3: (Inr p3)
        obtain cs3 out3 where p3: "p3 = (cs3, out3)" by (cases p3)
        note pre = s1 i1 p1 s2 i2 p2 s3 i3 p3
        show ?thesis
        proof (cases "files ''keys.pub''")
          case None
          show ?thesis
          proof (rule that [of cs1 out1 w1 cs2 out2 w2 cs3 out3 w3])
            show "files ''keys.pub'' = None \<longrightarrow> keys_stage r = None \<and> snd (main run files containers w) = w3"
              using assms pre by (auto simp: main_def)
            show "files ''keys.pub'' \<noteq> None \<longrightarrow>
               (\<exists>cs4 out4 w4. for_containers (keys_body run files) (length containers) 0 cs3 w3 = (Inr (cs4, out4), w4)
                \<and> keys_stage r = Some out4 \<and> snd (main run files containers w) = w4)"
              using None by simp
          qed (use assms pre None in \<open>auto simp: main_def\<close>)
        next
          case (Some content)
          obtain res4 w4 where s4: "for_containers (keys_body run files) ?n 0 cs3 w3 = (res4, w4)"
            by (cases "for_containers (keys_body run files) ?n 0 cs3 w3")
          show ?thesis
          proof (cases res4)
            case (Inl e)
            then show ?thesis using assms pre Some s4 by (simp add: main_def keys_body_def)
          next
            case i4: (Inr p4)
            obtain cs4 out4 where p4: "p4 = (cs4, out4)" by (cases p4)
            show ?thesis
            proof (rule that [of cs1 out1 w1 cs2 out2 w2 cs3 out3 w3])
              show "files ''keys.pub'' = None \<longrightarrow> keys_stage r = None \<and> snd (main run files containers w) = w3"
                using Some by simp
              show "files ''keys.pub'' \<noteq> None \<longrightarrow>
                 (\<exists>cs4 out4 w4. for_containers (keys_body run files) (length containers) 0 cs3 w3 = (Inr (cs4, out4), w4)
                  \<and> keys_stage r = Some out4 \<and> snd (main run files containers w) = w4)"
                using assms pre Some s4 i4 p4 by (auto simp: main_def keys_body_def)
            qed (use assms pre Some s4 i4 p4 in \<open>auto simp: main_def keys_body_def\<close>)
          qed
        qed
      qed
    qed
  qed
qed


lemma keys_body_ok: "body_ok (keys_command files) (keys_body (traced run) files)"
  unfolding keys_body_def by (rule reconcile_body_ok) (rule add_ssh_public_keys_trace)

lemma install_body_ok: "body_ok (\<lambda>v. {CommandVSshd v}) (reconcile_body (install_openssh (traced run)))"
  by (rule reconcile_body_ok) (rule install_openssh_trace)

lemma password_body_ok:
  "body_ok (\<lambda>v. {GrepPasswordAuthentication v})
     (reconcile_body (\<lambda>c. set_ssh_password_authentication (traced run) c ''no''))"
  by (rule reconcile_body_ok) (rule set_ssh_password_authentication_trace)

lemmas eval_defs = main_def version_body_def reconcile_body_def get_linux_version_def
  parse_os_release_def splitlines_def is_linebreak_def lower_def lower_char_def
  install_openssh_def version_id_def install_command_def set_ssh_password_authentication_def
  add_ssh_public_keys_def strip_def isspace_def not_running_def about_def
  pct_exec_def traced_apply single_def no_sshd_config_def no_services_def grep_probe_def
  keys_script_def mkdir_p_def write_authorized_keys_def command_substitution_def
  in_subshell_def keys_B_C_def fleet_def Let_def case_prod_beta

text \<open>
  C9, as the claim states it, fails: without \<open>keys.pub\<close> on the host, a fleet of one running
  and one stopped container ends with the reports of three stages and no keys stage; the
  key reconciler is not attempted on the running container and the stopped one is not
  recorded as skipped there.
\<close>

theorem main_without_keys_file:
  "fst (main pct_exec no_files fleet (single no_sshd_config)) =
     Inr \<lparr>os_info =
            [\<lparr>bar_iteration = 1, bar_total = 2, bar_message = None, bar_suffix = ''web''\<rparr>,
             \<lparr>bar_iteration = 2, bar_total = 2,
              bar_message = Some ''Container db (102) is not running.'', bar_suffix = ''db''\<rparr>],
          package_service =
            [\<lparr>bar_iteration = 1, bar_total = 2, bar_message = None, bar_suffix = ''web''\<rparr>,
             \<lparr>bar_iteration = 2, bar_total = 2,
              bar_message = Some ''Container db (102) is not running.'', bar_suffix = ''db''\<rparr>],
          password_auth =
            [\<lparr>bar_iteration = 1, bar_total = 2,
              bar_message = Some ''Container web (101) SSH not installed or not configured.'',
              bar_suffix = ''web''\<rparr>,
             \<lparr>bar_iteration = 2, bar_total = 2,
              bar_message = Some ''Container db (102) is not running.'', bar_suffix = ''db''\<rparr>],
          keys_stage = None\<rparr>"
  by (simp add: eval_defs no_files_def)

text \<open>
  The run also ends early when a call raises: with an os-release file that has an empty
  line in the first container, nothing is reported for either container.
\<close>

lemma main_aborts_on_malformed_os_release: "fst (main pct_exec keys_B_C both_running two_containers) = Inl IndexError"
  by (simp add: eval_defs both_running_def two_containers_def centos7_def)

lemma run_with_keys:
  "fst (main (traced pct_exec) keys_B_C fleet (single no_sshd_config, [])) =
     Inr \<lparr>os_info =
            [\<lparr>bar_iteration = 1, bar_total = 2, bar_message = None, bar_suffix = ''web''\<rparr>,
             \<lparr>bar_iteration = 2, bar_total = 2,
              bar_message = Some ''Container db (102) is not running.'', bar_suffix = ''db''\<rparr>],
          package_service =
            [\<lparr>bar_iteration = 1, bar_total = 2, bar_message = None, bar_suffix = ''web''\<rparr>,
             \<lparr>bar_iteration = 2, bar_total = 2,
              bar_message = Some ''Container db (102) is not running.'', bar_suffix = ''db''\<rparr>],
          password_auth =
            [\<lparr>bar_iteration = 1, bar_total = 2,
              bar_message = Some ''Container web (101) SSH not installed or not configured.'',
              bar_suffix = ''web''\<rparr>,
             \<lparr>bar_iteration = 2, bar_total = 2,
              bar_message = Some ''Container db (102) is not running.'', bar_suffix = ''db''\<rparr>],
          keys_stage = Some
            [\<lparr>bar_iteration = 1, bar_total = 2,
              bar_message = Some ''Container web (101) SSH keys successfully added to container.'',
              bar_suffix = ''web''\<rparr>,
             \<lparr>bar_iteration = 2, bar_total = 2,
              bar_message = Some ''Container db (102) is not running.'', bar_suffix = ''db''\<rparr>]\<rparr>"
  by (simp add: eval_defs)


text \<open>
  C9, amended: when the run completes without an exception, each of the stages os-info,
  package/service and password-auth has exactly one report entry for every container, in
  the order of the fleet and under the container's name, and so has the keys stage when
  \<open>keys.pub\<close> exists; when it does not exist the keys stage has no entries at all. The
  entry of a container that is not running is the "is not running" message. Every
  command of the run is aimed at a running container, and every running container gets the
  first command of each stage: the os-release read, the \<open>sshd\<close> probe, the configuration
  probe, and the key script when \<open>keys.pub\<close> holds keys.
\<close>

theorem main_report:
  assumes "fst (main (traced run) files containers (w, [])) = Inr r"
  shows "list_all2 reported containers (os_info r)
     \<and> list_all2 reported containers (package_service r)
     \<and> list_all2 reported containers (password_auth r)
     \<and> (files ''keys.pub'' = None \<longrightarrow> keys_stage r = None)
     \<and> (files ''keys.pub'' \<noteq> None \<longrightarrow>
          (\<exists>bars. keys_stage r = Some bars \<and> list_all2 reported containers bars))
     \<and> (\<forall>cmd\<in>set (snd (snd (main (traced run) files containers (w, [])))).
          \<exists>item\<in>set containers. running (snd item) \<and> target cmd = vmid (snd item))
     \<and> (\<forall>item\<in>set containers. running (snd item) \<longrightarrow>
          {CatOsRelease (vmid (snd item)), CommandVSshd (vmid (snd item)),
           GrepPasswordAuthentication (vmid (snd item))} \<union> keys_command files (vmid (snd item))
            \<subseteq> set (snd (snd (main (traced run) files containers (w, [])))))"
proof -
  let ?ids = "map ident containers"
  let ?n = "length containers"
  let ?log = "snd (snd (main (traced run) files containers (w, [])))"
  from assms obtain cs1 out1 wl1 cs2 out2 wl2 cs3 out3 wl3 where
    s1: "for_containers (version_body (traced run)) ?n 0 containers (w, []) = (Inr (cs1, out1), wl1)"
    and s2: "for_containers (reconcile_body (install_openssh (traced run))) ?n 0 cs1 wl1 = (Inr (cs2, out2), wl2)"
    and s3: "for_containers (reconcile_body (\<lambda>c. set_ssh_password_authentication (traced run) c ''no''))
        ?n 0 cs2 wl2 = (Inr (cs3, out3), wl3)"
    and r: "os_info r = out1" "package_service r = out2" "password_auth r = out3"
    and none: "files ''keys.pub'' = None \<longrightarrow> keys_stage r = None \<and> snd (main (traced run) files containers (w, [])) = wl3"
    and some: "files ''keys.pub'' \<noteq> None \<longrightarrow>
       (\<exists>cs4 out4 wl4. for_containers (keys_body (traced run) files) ?n 0 cs3 wl3 = (Inr (cs4, out4), wl4)
          \<and> keys_stage r = Some out4 \<and> snd (main (traced run) files containers (w, [])) = wl4)"
    by (rule main_stages) (rule that; assumption)
  obtain new1 where n1: "snd wl1 = new1" "aimed ?ids new1" "list_all2 entry_of ?ids out1"
      "map ident cs1 = ?ids" "reached (\<lambda>v. {CatOsRelease v}) ?ids new1"
    using stage [where cs = containers and n = ?n and w = w and log = "[]", OF version_body_ok [of run] refl] s1 by auto
  obtain w1 where wl1: "wl1 = (w1, new1)" using n1(1) by (cases wl1) simp
  obtain new2 where n2: "snd wl2 = new1 @ new2" "aimed ?ids new2" "list_all2 entry_of ?ids out2"
      "map ident cs2 = ?ids" "reached (\<lambda>v. {CommandVSshd v}) ?ids new2"
    using stage [where cs = cs1 and n = ?n and w = w1 and log = new1, OF install_body_ok [of run] n1(4)] s2 wl1 by auto
  obtain w2 where wl2: "wl2 = (w2, new1 @ new2)" using n2(1) by (cases wl2) simp
  obtain new3 where n3: "snd wl3 = (new1 @ new2) @ new3" "aimed ?ids new3" "list_all2 entry_of ?ids out3"
      "map ident cs3 = ?ids" "reached (\<lambda>v. {GrepPasswordAuthentication v}) ?ids new3"
    using stage [where cs = cs2 and n = ?n and w = w2 and log = "new1 @ new2", OF password_body_ok [of run] n2(4)] s3 wl2 by auto
  obtain w3 where wl3: "wl3 = (w3, (new1 @ new2) @ new3)" using n3(1) by (cases wl3) simp
  have three: "list_all2 reported containers (os_info r)"
      "list_all2 reported containers (package_service r)"
      "list_all2 reported containers (password_auth r)"
    using n1(3) n2(3) n3(3) r by (simp_all add: reported_entry_of)
  have "\<exists>new4. ?log = new1 @ new2 @ new3 @ new4 \<and> aimed ?ids new4
          \<and> reached (keys_command files) ?ids new4
          \<and> (files ''keys.pub'' = None \<longrightarrow> keys_stage r = None)
          \<and> (files ''keys.pub'' \<noteq> None \<longrightarrow>
                (\<exists>bars. keys_stage r = Some bars \<and> list_all2 reported containers bars))"
  proof (cases "files ''keys.pub''")
    case None
    then have "?log = new1 @ new2 @ new3 @ []" "keys_stage r = None"
      using none wl3 by simp_all
    moreover have "reached (keys_command files) ?ids []"
      using None by (simp add: reached_def keys_command_def)
    ultimately show ?thesis using None aimed_Nil by blast
  next
    case (Some content)
    then obtain cs4 out4 wl4 where
      s4: "for_containers (keys_body (traced run) files) ?n 0 cs3 wl3 = (Inr (cs4, out4), wl4)"
      and k: "keys_stage r = Some out4" and l: "snd (main (traced run) files containers (w, [])) = wl4"
      using some by auto
    obtain new4 where n4: "snd wl4 = ((new1 @ new2) @ new3) @ new4" "aimed ?ids new4"
        "list_all2 entry_of ?ids out4" "reached (keys_command files) ?ids new4"
      using stage [where cs = cs3 and n = ?n and w = w3 and log = "(new1 @ new2) @ new3", OF keys_body_ok [of files run] n3(4)] s4 wl3 by auto
    have "?log = new1 @ new2 @ new3 @ new4" using l n4(1) by simp
    moreover have "list_all2 reported containers out4" using n4(3) by (simp add: reported_entry_of)
    ultimately show ?thesis using Some k n4(2,4) by auto
  qed
  then obtain new4 where log: "?log = new1 @ new2 @ new3 @ new4" and a4: "aimed ?ids new4"
      and r4: "reached (keys_command files) ?ids new4"
      and k: "files ''keys.pub'' = None \<longrightarrow> keys_stage r = None"
        "files ''keys.pub'' \<noteq> None \<longrightarrow> (\<exists>bars. keys_stage r = Some bars \<and> list_all2 reported containers bars)"
    by (elim exE conjE) (rule that)
  have "aimed ?ids ?log"
    using n1(2) n2(2) n3(2) a4 by (simp add: log aimed_append)
  then have targets: "\<forall>cmd\<in>set ?log. \<exists>item\<in>set containers. running (snd item) \<and> target cmd = vmid (snd item)"
    by (simp add: aimed_ident)
  have "reached (\<lambda>v. {CatOsRelease v}) ?ids ?log" "reached (\<lambda>v. {CommandVSshd v}) ?ids ?log"
      "reached (\<lambda>v. {GrepPasswordAuthentication v}) ?ids ?log" "reached (keys_command files) ?ids ?log"
    using n1(5) n2(5) n3(5) r4 by (auto simp: log intro: reached_mono)
  then have firsts: "\<forall>item\<in>set containers. running (snd item) \<longrightarrow>
          {CatOsRelease (vmid (snd item)), CommandVSshd (vmid (snd item)),
           GrepPasswordAuthentication (vmid (snd item))} \<union> keys_command files (vmid (snd item))
            \<subseteq> set ?log"
    by (simp add: reached_ident)
  from three k targets firsts show ?thesis by (intro conjI)
qed


theorem main_report_witness:
  "fst (main (traced pct_exec) keys_B_C fleet (single no_sshd_config, [])) = Inr fleet_report
   \<and> list_all2 reported fleet (os_info fleet_report)
   \<and> list_all2 reported fleet (package_service fleet_report)
   \<and> list_all2 reported fleet (password_auth fleet_report)
   \<and> keys_B_C ''keys.pub'' \<noteq> None
   \<and> (\<exists>bars. keys_stage fleet_report = Some bars \<and> list_all2 reported fleet bars)
   \<and> set [CatOsRelease ''101'', CommandVSshd ''101'', GrepPasswordAuthentication ''101'',
            KeysScript ''101'' ''B\<newline>C'' True]
        \<subseteq> set (snd (snd (main (traced pct_exec) keys_B_C fleet (single no_sshd_config, []))))"
proof -
  have h: "fst (main (traced pct_exec) keys_B_C fleet (single no_sshd_config, [])) = Inr fleet_report"
    unfolding fleet_report_def by (rule run_with_keys)
  have k: "keys_B_C ''keys.pub'' \<noteq> None"
    by (simp add: keys_B_C_def)
  have c: "keys_command keys_B_C ''101'' = {KeysScript ''101'' ''B\<newline>C'' True}"
    by (simp add: keys_command_def keys_B_C_def strip_def isspace_def)
  have f: "(''web'', \<lparr>vmid = ''101'', running = True, version = None\<rparr>) \<in> set fleet"
    by (simp add: fleet_def)
  note m = main_report [OF h]
  from m f have "{CatOsRelease ''101'', CommandVSshd ''101'', GrepPasswordAuthentication ''101''}
           \<union> keys_command keys_B_C ''101''
        \<subseteq> set (snd (snd (main (traced pct_exec) keys_B_C fleet (single no_sshd_config, []))))"
    by fastforce
  then show ?thesis using h k m c by simp
qed

end
